theory Spec2Isabelle
  imports Complex_Main
begin

section \<open>Strings and paths\<close>

text \<open>
  Python's \<^verbatim>\<open>str.split(sep)\<close> for a one-character separator: the pieces between
  the separators, empty pieces kept, never the empty list.
\<close>

fun split_on :: "char \<Rightarrow> string \<Rightarrow> string list" where
  "split_on c [] = [[]]"
| "split_on c (x # xs) =
     (if x = c then [] # split_on c xs
      else (case split_on c xs of
              [] \<Rightarrow> [[x]]
            | w # ws \<Rightarrow> (x # w) # ws))"

definition startswith :: "string \<Rightarrow> string \<Rightarrow> bool" where
  \<comment> \<open>\<^verbatim>\<open>s.startswith(p)\<close>\<close>
  "startswith s p = (take (length p) s = p)"

fun is_substring :: "string \<Rightarrow> string \<Rightarrow> bool" where
  \<comment> \<open>\<^verbatim>\<open>k in s\<close> for two strings\<close>
  "is_substring k [] = (k = [])"
| "is_substring k (x # xs) = (startswith (x # xs) k \<or> is_substring k xs)"

definition rstrip_char :: "char \<Rightarrow> string \<Rightarrow> string" where
  "rstrip_char c s = rev (dropWhile (\<lambda>x. x = c) (rev s))"

definition strip_char :: "char \<Rightarrow> string \<Rightarrow> string" where
  \<comment> \<open>\<^verbatim>\<open>s.strip(c)\<close> for a one-character set\<close>
  "strip_char c s = rstrip_char c (dropWhile (\<lambda>x. x = c) s)"

definition lower_char :: "char \<Rightarrow> char" where
  "lower_char c =
     (let n = (of_char c :: nat) in if 65 \<le> n \<and> n \<le> 90 then char_of (n + 32) else c)"

definition lower :: "string \<Rightarrow> string" where
  \<comment> \<open>\<^verbatim>\<open>s.lower()\<close> on the ASCII letters\<close>
  "lower s = map lower_char s"

text \<open>The POSIX flavour of \<^verbatim>\<open>os.path\<close>.\<close>

definition basename :: "string \<Rightarrow> string" where
  "basename p = last (split_on CHR ''/'' p)"

definition dirname :: "string \<Rightarrow> string" where
  "dirname p =
     (let head = take (length p - length (basename p)) p in
      if head \<noteq> [] \<and> (\<exists>c \<in> set head. c \<noteq> CHR ''/'') then rstrip_char CHR ''/'' head
      else head)"

definition join :: "string \<Rightarrow> string \<Rightarrow> string" where
  "join a b =
     (if startswith b ''/'' then b
      else if a = [] \<or> last a = CHR ''/'' then a @ b
      else a @ ''/'' @ b)"

definition splitext :: "string \<Rightarrow> string \<times> string" where
  \<comment> \<open>the extension starts at the last dot of the last path component, unless only
      dots come before it there\<close>
  "splitext p =
     (let base = basename p;
          ext = CHR ''.'' # last (split_on CHR ''.'' base);
          stem = take (length base - length ext) base
      in if CHR ''.'' \<in> set base \<and> (\<exists>c \<in> set stem. c \<noteq> CHR ''.'')
         then (take (length p - length ext) p, ext)
         else (p, []))"

function show_nat :: "nat \<Rightarrow> string" where
  "show_nat n =
     (if n < 10 then [char_of (48 + n)]
      else show_nat (n div 10) @ [char_of (48 + n mod 10)])"
  by pat_completeness auto
termination
  by (relation "measure id") auto

definition show_int :: "int \<Rightarrow> string" where
  "show_int i = (if i < 0 then CHR ''-'' # show_nat (nat (- i)) else show_nat (nat i))"

section \<open>Values and exceptions\<close>

text \<open>
  The values the service handles are what \<^verbatim>\<open>json.loads\<close> returns and what it
  builds from them: \<^verbatim>\<open>None\<close>, booleans, numbers, strings, lists and dictionaries.
  A dictionary is an association list whose first binding of a key is the one read.
  Floats are exact rationals: binary rounding and the non-finite floats are outside
  the model.
\<close>

datatype json =
    JNull
  | JBool bool
  | JInt int
  | JFloat rat
  | JStr string
  | JArr "json list"
  | JObj "(string \<times> json) list"

datatype exn =
    Exception string
  | JSONDecodeError
  | KeyError string
  | TypeError
  | AttributeError
  | ValueError
  | ZeroDivisionError

fun str_exn :: "exn \<Rightarrow> string" where
  \<comment> \<open>\<^verbatim>\<open>str(e)\<close>. The text of an exception the interpreter raises only reaches the
      log; the model keeps the class name in its place.\<close>
  "str_exn (Exception m) = m"
| "str_exn JSONDecodeError = ''JSONDecodeError''"
| "str_exn (KeyError k) = CHR 0x27 # k @ [CHR 0x27]"
| "str_exn TypeError = ''TypeError''"
| "str_exn AttributeError = ''AttributeError''"
| "str_exn ValueError = ''ValueError''"
| "str_exn ZeroDivisionError = ''ZeroDivisionError''"

definition bindE :: "exn + 'a \<Rightarrow> ('a \<Rightarrow> exn + 'b) \<Rightarrow> exn + 'b" where
  \<comment> \<open>sequencing: the first exception raised ends the computation\<close>
  "bindE m f = (case m of Inl e \<Rightarrow> Inl e | Inr x \<Rightarrow> f x)"

fun truthy :: "json \<Rightarrow> bool" where
  "truthy JNull = False"
| "truthy (JBool b) = b"
| "truthy (JInt i) = (i \<noteq> 0)"
| "truthy (JFloat r) = (r \<noteq> 0)"
| "truthy (JStr s) = (s \<noteq> [])"
| "truthy (JArr xs) = (xs \<noteq> [])"
| "truthy (JObj d) = (d \<noteq> [])"

fun py_in :: "string \<Rightarrow> json \<Rightarrow> exn + bool" where
  \<comment> \<open>\<^verbatim>\<open>'k' in v\<close>\<close>
  "py_in k (JObj d) = Inr (k \<in> set (map fst d))"
| "py_in k (JArr xs) = Inr (JStr k \<in> set xs)"
| "py_in k (JStr s) = Inr (is_substring k s)"
| "py_in k _ = Inl TypeError"

fun py_getitem :: "json \<Rightarrow> string \<Rightarrow> exn + json" where
  \<comment> \<open>\<^verbatim>\<open>v['k']\<close>\<close>
  "py_getitem (JObj d) k = (case map_of d k of None \<Rightarrow> Inl (KeyError k) | Some x \<Rightarrow> Inr x)"
| "py_getitem _ k = Inl TypeError"

definition dict_get :: "(string \<times> json) list \<Rightarrow> string \<Rightarrow> json \<Rightarrow> json" where
  \<comment> \<open>\<^verbatim>\<open>d.get('k', default)\<close> on a dictionary\<close>
  "dict_get d k dflt = (case map_of d k of None \<Rightarrow> dflt | Some x \<Rightarrow> x)"

fun py_get :: "json \<Rightarrow> string \<Rightarrow> json \<Rightarrow> exn + json" where
  \<comment> \<open>\<^verbatim>\<open>v.get('k', default)\<close>\<close>
  "py_get (JObj d) k dflt = Inr (dict_get d k dflt)"
| "py_get _ k dflt = Inl AttributeError"

fun py_iter :: "json \<Rightarrow> exn + json list" where
  \<comment> \<open>the items a \<^verbatim>\<open>for\<close> loop over the value visits\<close>
  "py_iter (JArr xs) = Inr xs"
| "py_iter (JObj d) = Inr (map (\<lambda>kv. JStr (fst kv)) d)"
| "py_iter (JStr s) = Inr (map (\<lambda>c. JStr [c]) s)"
| "py_iter _ = Inl TypeError"

fun py_startswith :: "json \<Rightarrow> string \<Rightarrow> exn + bool" where
  \<comment> \<open>\<^verbatim>\<open>v.startswith(p)\<close>\<close>
  "py_startswith (JStr s) p = Inr (startswith s p)"
| "py_startswith _ p = Inl AttributeError"

section \<open>Configuration\<close>

record config =
  S3_BUCKET :: string
  S3_PREFIX :: string
  EXPECTED_S3_EVENT_SOURCE :: string
  EXPECTED_S3_EVENT_PREFIX :: string
  DOWNLOAD_DIR :: string
  CLEANUP_AFTER_PROCESSING :: bool
  MAX_RUNTIME_HOURS :: rat

definition default_config :: config where
  \<comment> \<open>the defaults of \<^verbatim>\<open>config.py\<close>\<close>
  "default_config =
     \<lparr>S3_BUCKET = ''dancer-uploads'', S3_PREFIX = ''uploads'',
      EXPECTED_S3_EVENT_SOURCE = ''aws:s3'', EXPECTED_S3_EVENT_PREFIX = ''ObjectCreated'',
      DOWNLOAD_DIR = ''./temp_downloads'', CLEANUP_AFTER_PROCESSING = True,
      MAX_RUNTIME_HOURS = 1\<rparr>"

section \<open>The queue client\<close>

record raw_message =
  MessageId :: string
  ReceiptHandle :: string
  Body :: string

text \<open>
  The dictionary \<^verbatim>\<open>_parse_message\<close> returns. The keys \<^verbatim>\<open>etag\<close>,
  \<^verbatim>\<open>event_source\<close> and \<^verbatim>\<open>aws_region\<close> are absent from the direct
  (test) format.
\<close>

record event =
  message_id :: string
  receipt_handle :: string
  bucket :: json
  key :: json
  size_v :: json
  etag :: "json option"
  event_name :: json
  event_time :: json
  event_source :: "json option"
  aws_region :: "json option"
  raw_message :: raw_message

text \<open>
  The body of the loop over \<^verbatim>\<open>body['Records']\<close>: \<open>Inr None\<close> is
  \<^verbatim>\<open>continue\<close>, \<open>Inr (Some ev)\<close> is \<^verbatim>\<open>return\<close>, \<open>Inl e\<close> is an exception
  that leaves the loop.
\<close>

definition check_record :: "config \<Rightarrow> raw_message \<Rightarrow> json \<Rightarrow> exn + event option" where
  "check_record cfg message rec =
     bindE (py_get rec ''eventSource'' (JStr [])) (\<lambda>event_source'.
     if event_source' \<noteq> JStr (EXPECTED_S3_EVENT_SOURCE cfg) then Inr None else
     bindE (py_get rec ''eventName'' (JStr [])) (\<lambda>event_name'.
     bindE (py_startswith event_name' (EXPECTED_S3_EVENT_PREFIX cfg)) (\<lambda>named.
     if \<not> named then Inr None else
     bindE (py_getitem rec ''s3'') (\<lambda>s3_info.
     bindE (py_getitem s3_info ''bucket'') (\<lambda>b.
     bindE (py_getitem b ''name'') (\<lambda>bucket_name.
     bindE (py_getitem s3_info ''object'') (\<lambda>obj.
     bindE (py_getitem obj ''key'') (\<lambda>object_key.
     if bucket_name \<noteq> JStr (S3_BUCKET cfg) then Inr None else
     bindE (py_startswith object_key (S3_PREFIX cfg @ ''/'')) (\<lambda>prefixed.
     if \<not> prefixed then Inr None else
     bindE (py_get obj ''size'' (JInt 0)) (\<lambda>sz.
     bindE (py_get obj ''eTag'' (JStr [])) (\<lambda>tag.
     bindE (py_get rec ''eventTime'' JNull) (\<lambda>tm.
     bindE (py_get rec ''awsRegion'' JNull) (\<lambda>region.
     Inr (Some \<lparr>message_id = MessageId message,
                 receipt_handle = ReceiptHandle message,
                 bucket = bucket_name,
                 key = object_key,
                 size_v = sz,
                 etag = Some tag,
                 event_name = event_name',
                 event_time = tm,
                 event_source = Some event_source',
                 aws_region = Some region,
                 raw_message = message\<rparr>))))))))))))))"

fun parse_records :: "config \<Rightarrow> raw_message \<Rightarrow> json list \<Rightarrow> exn + event option" where
  "parse_records cfg message [] = Inr None"
| "parse_records cfg message (rec # rest) =
     (case check_record cfg message rec of
        Inl e \<Rightarrow> Inl e
      | Inr (Some ev) \<Rightarrow> Inr (Some ev)
      | Inr None \<Rightarrow> parse_records cfg message rest)"

definition parse_direct :: "raw_message \<Rightarrow> json \<Rightarrow> exn + event option" where
  \<comment> \<open>the direct message format (for testing)\<close>
  "parse_direct message body =
     bindE (py_getitem body ''bucket'') (\<lambda>b.
     bindE (py_getitem body ''key'') (\<lambda>k.
     bindE (py_get body ''size'' (JInt 0)) (\<lambda>sz.
     Inr (Some \<lparr>message_id = MessageId message,
                 receipt_handle = ReceiptHandle message,
                 bucket = b,
                 key = k,
                 size_v = sz,
                 etag = None,
                 event_name = JStr ''manual'',
                 event_time = JNull,
                 event_source = None,
                 aws_region = None,
                 raw_message = message\<rparr>))))"

text \<open>
  The body of the \<^verbatim>\<open>try\<close> in \<^verbatim>\<open>_parse_message\<close>. \<^verbatim>\<open>json.loads\<close> is the
  library's: \<open>loads\<close> gives the decoded body, or \<open>None\<close> where it raises
  \<^verbatim>\<open>JSONDecodeError\<close>. A loop over the records that ends without a
  \<^verbatim>\<open>return\<close> falls off the end of the function, which returns \<^verbatim>\<open>None\<close>.
\<close>

definition parse_message_body ::
  "config \<Rightarrow> (string \<Rightarrow> json option) \<Rightarrow> raw_message \<Rightarrow> exn + event option" where
  "parse_message_body cfg loads message =
     (case loads (Body message) of
        None \<Rightarrow> Inl JSONDecodeError
      | Some body \<Rightarrow>
          bindE (py_in ''Records'' body) (\<lambda>has_records.
          if has_records then
            bindE (py_getitem body ''Records'') (\<lambda>records.
            bindE (py_iter records) (\<lambda>rs.
            parse_records cfg message rs))
          else
            bindE (py_in ''bucket'' body) (\<lambda>has_bucket.
            bindE (if has_bucket then py_in ''key'' body else Inr False) (\<lambda>has_key.
            if has_bucket \<and> has_key then parse_direct message body
            else Inr None))))"

definition parse_message ::
  "config \<Rightarrow> (string \<Rightarrow> json option) \<Rightarrow> raw_message \<Rightarrow> exn + event option" where
  \<comment> \<open>both \<^verbatim>\<open>except\<close> clauses log and return \<^verbatim>\<open>None\<close>\<close>
  "parse_message cfg loads message =
     (case parse_message_body cfg loads message of
        Inl e \<Rightarrow> Inr None
      | Inr r \<Rightarrow> Inr r)"

text \<open>
  The queue as the service sees it: \<open>sqs_deleted\<close> lists the receipt handles passed to
  the backend's \<^verbatim>\<open>delete_message\<close>, oldest first. An error of that backend call is
  caught and logged inside \<^verbatim>\<open>SQSHandler.delete_message\<close> and is not modelled.
\<close>

definition delete_message :: "string list \<Rightarrow> event + raw_message \<Rightarrow> string list" where
  "delete_message deleted message =
     (case message of
        Inl parsed \<Rightarrow> deleted @ [receipt_handle parsed]
      | Inr raw \<Rightarrow> deleted @ [ReceiptHandle raw])"

datatype receive_result = ReceiveError | Received "raw_message list"

text \<open>The loop of \<^verbatim>\<open>poll_messages\<close> over the messages received.\<close>

fun poll_loop ::
  "config \<Rightarrow> (string \<Rightarrow> json option) \<Rightarrow> raw_message list \<Rightarrow> event list \<Rightarrow> string list
     \<Rightarrow> event list \<times> string list" where
  "poll_loop cfg loads [] parsed_messages deleted = (parsed_messages, deleted)"
| "poll_loop cfg loads (message # rest) parsed_messages deleted =
     (case parse_message cfg loads message of
        Inr (Some parsed_message) \<Rightarrow>
          poll_loop cfg loads rest (parsed_messages @ [parsed_message]) deleted
      | Inr None \<Rightarrow> poll_loop cfg loads rest parsed_messages deleted
      | Inl e \<Rightarrow>
          poll_loop cfg loads rest parsed_messages (delete_message deleted (Inr message)))"

definition poll_messages ::
  "config \<Rightarrow> (string \<Rightarrow> json option) \<Rightarrow> receive_result \<Rightarrow> string list
     \<Rightarrow> event list \<times> string list" where
  \<comment> \<open>\<open>response\<close> is what the backend's \<^verbatim>\<open>receive_message\<close> answers\<close>
  "poll_messages cfg loads response deleted =
     (case response of
        ReceiveError \<Rightarrow> ([], deleted)
      | Received messages \<Rightarrow> poll_loop cfg loads messages [] deleted)"

section \<open>The world outside the service\<close>

datatype head_result =
    HeadOk "(string \<times> json) list"
  | HeadClientError string
  | HeadError

datatype transfer_result =
    Transferred nat
  | TransferredNothing
  | TransferClientError string
  | TransferError

datatype proc_result =
    ProcNotFound
  | ProcTimeout
  | ProcExit int string string

text \<open>
  What the backends and the interpreter answer, as parameters of the model:
  \<^item> \<open>head_object b k\<close>: the response dictionary of the object store's metadata lookup,
    a \<^verbatim>\<open>ClientError\<close> with its error code, or any other exception;
  \<^item> \<open>s3_download b k\<close>: the transfer writes a file of so many bytes at the destination,
    returns without writing one, or raises;
  \<^item> \<open>resolve_path p\<close>: the name of the node of the file system that the path \<open>p\<close>
    leads to; it is the operating system's answer, the same for two paths that differ in
    trailing or repeated slashes, in \<^verbatim>\<open>.\<close> and \<^verbatim>\<open>..\<close> components or by links;
  \<^item> \<open>dir_size\<close>: the size the file system reports of a directory it has just made;
  \<^item> \<open>ffprobe_version\<close>, \<open>ffprobe_run path\<close>: the probe tool is missing, times out, or
    exits with a return code, its output and its error output;
  \<^item> \<open>json_loads\<close>, \<open>float_of_str\<close>, \<open>int_of_str\<close>: \<^verbatim>\<open>json.loads\<close>, \<^verbatim>\<open>float\<close>
    and \<^verbatim>\<open>int\<close> on a string, \<open>None\<close> where they raise;
  \<^item> \<open>db_up\<close>: the record store accepts sessions and commits (one answer for the whole
    run: a store that is in service when a record is created is in service when the
    record is updated);
  \<^item> \<open>db_binds v\<close>: the store's driver binds the boolean or number \<open>v\<close> to a string
    column (whether it does depends on the database engine);
  \<^item> \<open>utcnow\<close>: the text of the clock's reading (the same for every reading taken
    while one event is handled);
  \<^item> \<open>receive_message n\<close>: the queue's answer to the \<open>n\<close>-th poll;
  \<^item> \<open>elapsed_seconds n\<close>: the seconds since the start that the \<open>n\<close>-th pass of the
    main loop reads.
\<close>

record env =
  head_object :: "string \<Rightarrow> string \<Rightarrow> head_result"
  s3_download :: "string \<Rightarrow> string \<Rightarrow> transfer_result"
  resolve_path :: "string \<Rightarrow> string"
  dir_size :: nat
  ffprobe_version :: proc_result
  ffprobe_run :: "string \<Rightarrow> proc_result"
  json_loads :: "string \<Rightarrow> json option"
  float_of_str :: "string \<Rightarrow> rat option"
  int_of_str :: "string \<Rightarrow> int option"
  db_up :: bool
  db_binds :: "json \<Rightarrow> bool"
  utcnow :: string
  receive_message :: "nat \<Rightarrow> receive_result"
  elapsed_seconds :: "nat \<Rightarrow> rat"

record file_stat =
  st_isdir :: bool
  st_size :: nat
  st_mtime :: string

text \<open>
  \<^verbatim>\<open>ProcessingRecord\<close>. The timestamps are the clock's text, the serialised
  metadata is the value serialised.
\<close>

record processing_record =
  rec_id :: nat
  upload_id :: "string option"
  s3_bucket :: json
  s3_key :: json
  processing_status :: string
  processing_started :: "string option"
  processing_completed :: "string option"
  metadata_json :: "json option"
  error_message :: "string option"
  retry_count :: int

text \<open>
  The state the service changes: the receipt handles deleted from the queue, the
  nodes of the local file system (regular files and directories, each under the name
  \<open>resolve_path\<close> gives it, with what \<^verbatim>\<open>os.stat\<close> reports of it), the table of
  processing records, the
  orchestrator's statistics and its \<^verbatim>\<open>running\<close> flag. \<open>polls\<close> counts the calls made to
  the queue's \<^verbatim>\<open>receive_message\<close>; it selects the queue's next answer.
\<close>

record world =
  sqs_deleted :: "string list"
  files :: "string \<rightharpoonup> file_stat"
  records :: "processing_record list"
  messages_processed :: nat
  files_downloaded :: nat
  processing_errors :: nat
  last_activity :: "string option"
  running :: bool
  polls :: nat

section \<open>The object-store client\<close>

definition path_exists :: "env \<Rightarrow> world \<Rightarrow> string \<Rightarrow> bool" where
  \<comment> \<open>\<^verbatim>\<open>os.path.exists\<close>: true of a regular file and of a directory\<close>
  "path_exists e w p = (files w (resolve_path e p) \<noteq> None)"

fun ancestors_upto :: "nat \<Rightarrow> string \<Rightarrow> string list" where
  "ancestors_upto 0 p = []"
| "ancestors_upto (Suc n) p =
     (let d = dirname p in if d = [] \<or> d = p then [] else d # ancestors_upto n d)"

definition ancestors :: "string \<Rightarrow> string list" where
  \<comment> \<open>the directories above a path, as \<^verbatim>\<open>os.path.dirname\<close> gives them one after the
      other (each is shorter than the one before, so the length of the path bounds them)\<close>
  "ancestors p = ancestors_upto (length p) p"

definition mark_dir ::
  "env \<Rightarrow> (string \<rightharpoonup> file_stat) \<Rightarrow> string \<Rightarrow> (string \<rightharpoonup> file_stat) option" where
  \<comment> \<open>the path is a directory afterwards; \<open>None\<close> where a regular file is in the way\<close>
  "mark_dir e fs p =
     (case fs (resolve_path e p) of
        None \<Rightarrow>
          Some (fs(resolve_path e p \<mapsto>
                  \<lparr>st_isdir = True, st_size = dir_size e, st_mtime = utcnow e\<rparr>))
      | Some st \<Rightarrow> if st_isdir st then Some fs else None)"

fun mark_dirs ::
  "env \<Rightarrow> (string \<rightharpoonup> file_stat) \<Rightarrow> string list \<Rightarrow> (string \<rightharpoonup> file_stat) option" where
  "mark_dirs e fs [] = Some fs"
| "mark_dirs e fs (p # ps) =
     (case mark_dir e fs p of None \<Rightarrow> None | Some fs' \<Rightarrow> mark_dirs e fs' ps)"

text \<open>
  \<^verbatim>\<open>os.makedirs(name, exist_ok=True)\<close>: it raises on the empty name and where the name
  or a directory above it is a regular file, and then has made nothing; otherwise the
  name, every directory above it and the directory the name starts from (the root, or
  the current directory) are directories afterwards. Permissions are outside the model.
\<close>

definition makedirs :: "env \<Rightarrow> world \<Rightarrow> string \<Rightarrow> world option" where
  "makedirs e w name =
     (if name = [] then None
      else (case mark_dirs e (files w)
                   ((if hd name = CHR ''/'' then ''/'' else ''.'')
                      # rev (ancestors name) @ [name]) of
              None \<Rightarrow> None
            | Some fs \<Rightarrow> Some (w\<lparr>files := fs\<rparr>)))"

definition verify_download :: "env \<Rightarrow> string \<Rightarrow> world \<Rightarrow> string option \<times> world" where
  \<comment> \<open>the check after the transfer: \<^verbatim>\<open>os.path.exists(local_filename)\<close>\<close>
  "verify_download e local_filename w =
     (if path_exists e w local_filename then (Some local_filename, w) else (None, w))"

text \<open>
  The backend's \<^verbatim>\<open>download_file\<close>, then the verification. A transfer that has a file
  to write where a directory stands raises.
\<close>

definition transfer_file ::
  "env \<Rightarrow> world \<Rightarrow> string \<Rightarrow> string \<Rightarrow> string \<Rightarrow> string option \<times> world" where
  "transfer_file e w b k local_filename =
     (case s3_download e b k of
        Transferred n \<Rightarrow>
          (if (case files w (resolve_path e local_filename) of
                 None \<Rightarrow> False
               | Some st \<Rightarrow> st_isdir st)
           then (None, w)
           else verify_download e local_filename
                  (w\<lparr>files := (files w)(resolve_path e local_filename \<mapsto>
                       \<lparr>st_isdir = False, st_size = n, st_mtime = utcnow e\<rparr>)\<rparr>))
      | TransferredNothing \<Rightarrow> verify_download e local_filename w
      | TransferClientError code \<Rightarrow> (None, w)
      | TransferError \<Rightarrow> (None, w))"

definition destination :: "config \<Rightarrow> json \<Rightarrow> string option \<Rightarrow> string option" where
  \<comment> \<open>the local file name: the one given, or the download directory joined with the
      last segment of the key; \<open>None\<close> where \<^verbatim>\<open>os.path.basename\<close> raises\<close>
  "destination cfg key' local_filename_arg =
     (case local_filename_arg of
        Some f \<Rightarrow> Some f
      | None \<Rightarrow>
          (case key' of
             JStr k \<Rightarrow> Some (join (DOWNLOAD_DIR cfg) (basename k))
           | _ \<Rightarrow> None))"

text \<open>
  \<^verbatim>\<open>S3Downloader.download_file\<close>. The outer handler turns every exception into
  \<^verbatim>\<open>None\<close>: of \<^verbatim>\<open>os.path.basename\<close> on a key that is not a string, of
  \<^verbatim>\<open>os.makedirs\<close>, of the backend's parameter validation on a bucket or key that is
  not a string, of the metadata lookup (other than a \<^verbatim>\<open>ClientError\<close>) and of the
  transfer.
\<close>

definition download_file ::
  "config \<Rightarrow> env \<Rightarrow> world \<Rightarrow> json \<Rightarrow> json \<Rightarrow> string option \<Rightarrow> string option \<times> world" where
  "download_file cfg e w bucket' key' local_filename_arg =
     (case destination cfg key' local_filename_arg of
        None \<Rightarrow> (None, w)
      | Some local_filename \<Rightarrow>
          (case makedirs e w (dirname local_filename) of
             None \<Rightarrow> (None, w)
           | Some w1 \<Rightarrow>
               (case (bucket', key') of
                  (JStr b, JStr k) \<Rightarrow>
                    (case head_object e b k of
                       HeadOk response \<Rightarrow> transfer_file e w1 b k local_filename
                     | HeadClientError code \<Rightarrow>
                         if code = ''NoSuchKey'' then (None, w1)
                         else transfer_file e w1 b k local_filename
                     | HeadError \<Rightarrow> (None, w1))
                | _ \<Rightarrow> (None, w1))))"

text \<open>
  \<^verbatim>\<open>S3Downloader.get_file_metadata\<close>: every failure, an \<^verbatim>\<open>ETag\<close> that has no
  \<^verbatim>\<open>strip\<close> included, gives \<^verbatim>\<open>None\<close>.
\<close>

definition get_file_metadata :: "env \<Rightarrow> json \<Rightarrow> json \<Rightarrow> json option" where
  "get_file_metadata e bucket' key' =
     (case (bucket', key') of
        (JStr b, JStr k) \<Rightarrow>
          (case head_object e b k of
             HeadOk response \<Rightarrow>
               (case dict_get response ''ETag'' (JStr []) of
                  JStr tag \<Rightarrow>
                    Some (JObj
                      [(''bucket'', bucket'),
                       (''key'', key'),
                       (''size'', dict_get response ''ContentLength'' (JInt 0)),
                       (''content_type'', dict_get response ''ContentType'' (JStr ''unknown'')),
                       (''last_modified'', dict_get response ''LastModified'' JNull),
                       (''etag'', JStr (strip_char (CHR 0x22) tag)),
                       (''s3_metadata'', dict_get response ''Metadata'' (JObj [])),
                       (''storage_class'', dict_get response ''StorageClass'' (JStr ''STANDARD''))])
                | _ \<Rightarrow> None)
           | HeadClientError code \<Rightarrow> None
           | HeadError \<Rightarrow> None)
      | _ \<Rightarrow> None)"

definition cleanup_file :: "env \<Rightarrow> world \<Rightarrow> string \<Rightarrow> bool \<times> world" where
  \<comment> \<open>\<^verbatim>\<open>os.remove\<close> raises on a directory; the handler returns \<^verbatim>\<open>False\<close>\<close>
  "cleanup_file e w local_path =
     (case files w (resolve_path e local_path) of
        None \<Rightarrow> (False, w)
      | Some st \<Rightarrow>
          if st_isdir st then (False, w)
          else (True, w\<lparr>files := (files w)(resolve_path e local_path := None)\<rparr>))"

section \<open>The probe adapter\<close>

definition round_half_even :: "rat \<Rightarrow> int" where
  "round_half_even x =
     (let f = \<lfloor>x\<rfloor>; d = x - of_int f in
      if d < 1 / 2 then f
      else if 1 / 2 < d then f + 1
      else if even f then f else f + 1)"

definition py_round2 :: "rat \<Rightarrow> rat" where
  \<comment> \<open>\<^verbatim>\<open>round(x, 2)\<close>\<close>
  "py_round2 x = of_int (round_half_even (x * 100)) / 100"

text \<open>
  \<^verbatim>\<open>MetadataExtractor._parse_fps\<close>. \<open>to_float\<close> is \<^verbatim>\<open>float\<close> on a string. The
  bare \<^verbatim>\<open>except\<close> turns every exception into \<^verbatim>\<open>None\<close>: an argument that is
  not a string (the \<^verbatim>\<open>in\<close> test, \<^verbatim>\<open>split\<close> or \<^verbatim>\<open>float\<close> raises), a number
  of pieces other than two, a piece \<^verbatim>\<open>float\<close> refuses, a zero denominator.
\<close>

definition parse_fps :: "(string \<Rightarrow> rat option) \<Rightarrow> json \<Rightarrow> rat option" where
  "parse_fps to_float fps_string =
     (case fps_string of
        JStr s \<Rightarrow>
          (if CHR ''/'' \<in> set s then
             (case split_on CHR ''/'' s of
                [num, den] \<Rightarrow>
                  (case to_float num of
                     None \<Rightarrow> None
                   | Some n \<Rightarrow>
                       (case to_float den of
                          None \<Rightarrow> None
                        | Some d \<Rightarrow> if d = 0 then None else Some (py_round2 (n / d))))
              | _ \<Rightarrow> None)
           else to_float s)
      | _ \<Rightarrow> None)"

text \<open>
  A reader of plain decimal numerals, the part of \<^verbatim>\<open>float\<close>'s grammar the probe
  tool's frame rates use.
\<close>

definition digit_of :: "char \<Rightarrow> nat option" where
  "digit_of c =
     (let n = (of_char c :: nat) in if 48 \<le> n \<and> n \<le> 57 then Some (n - 48) else None)"

fun digits_value :: "nat \<Rightarrow> string \<Rightarrow> nat option" where
  "digits_value acc [] = Some acc"
| "digits_value acc (c # cs) =
     (case digit_of c of None \<Rightarrow> None | Some d \<Rightarrow> digits_value (10 * acc + d) cs)"

definition decimal_numeral :: "string \<Rightarrow> rat option" where
  "decimal_numeral s = (if s = [] then None else map_option of_nat (digits_value 0 s))"

definition py_float :: "env \<Rightarrow> json \<Rightarrow> exn + rat" where
  \<comment> \<open>\<^verbatim>\<open>float(v)\<close>\<close>
  "py_float e v =
     (case v of
        JInt i \<Rightarrow> Inr (of_int i)
      | JFloat r \<Rightarrow> Inr r
      | JBool b \<Rightarrow> Inr (if b then 1 else 0)
      | JStr s \<Rightarrow> (case float_of_str e s of None \<Rightarrow> Inl ValueError | Some r \<Rightarrow> Inr r)
      | _ \<Rightarrow> Inl TypeError)"

definition py_int :: "env \<Rightarrow> json \<Rightarrow> exn + int" where
  \<comment> \<open>\<^verbatim>\<open>int(v)\<close>: a float is truncated towards zero\<close>
  "py_int e v =
     (case v of
        JInt i \<Rightarrow> Inr i
      | JFloat r \<Rightarrow> Inr (if 0 \<le> r then \<lfloor>r\<rfloor> else \<lceil>r\<rceil>)
      | JBool b \<Rightarrow> Inr (if b then 1 else 0)
      | JStr s \<Rightarrow> (case int_of_str e s of None \<Rightarrow> Inl ValueError | Some i \<Rightarrow> Inr i)
      | _ \<Rightarrow> Inl TypeError)"

fun filter_codec :: "string \<Rightarrow> json list \<Rightarrow> exn + json list" where
  \<comment> \<open>\<^verbatim>\<open>[s for s in streams if s.get('codec_type') == kind]\<close>\<close>
  "filter_codec kind [] = Inr []"
| "filter_codec kind (s # ss) =
     bindE (py_get s ''codec_type'' JNull) (\<lambda>t.
     bindE (filter_codec kind ss) (\<lambda>rest.
     Inr (if t = JStr kind then s # rest else rest)))"

definition opt_float :: "rat option \<Rightarrow> json" where
  "opt_float r = (case r of None \<Rightarrow> JNull | Some x \<Rightarrow> JFloat x)"

definition video_details :: "env \<Rightarrow> (string \<times> json) list \<Rightarrow> json" where
  "video_details e primary_video =
     JObj [(''codec'', dict_get primary_video ''codec_name'' JNull),
           (''width'', dict_get primary_video ''width'' JNull),
           (''height'', dict_get primary_video ''height'' JNull),
           (''fps'', opt_float (parse_fps (float_of_str e)
                                  (dict_get primary_video ''r_frame_rate'' JNull))),
           (''aspect_ratio'', dict_get primary_video ''display_aspect_ratio'' JNull),
           (''pixel_format'', dict_get primary_video ''pix_fmt'' JNull)]"

text \<open>
  What \<^verbatim>\<open>_extract_with_ffprobe\<close> builds from the decoded output when the tool
  exited with code 0.
\<close>

definition build_probe_metadata :: "env \<Rightarrow> json \<Rightarrow> exn + json" where
  "build_probe_metadata e probe_data =
     bindE (py_get probe_data ''streams'' (JArr [])) (\<lambda>streams.
     bindE (py_iter streams) (\<lambda>ss.
     bindE (filter_codec ''video'' ss) (\<lambda>video_streams.
     bindE (filter_codec ''audio'' ss) (\<lambda>audio_streams.
     bindE (py_get probe_data ''format'' (JObj [])) (\<lambda>fmt.
     bindE (py_get fmt ''duration'' (JInt 0)) (\<lambda>dur.
     bindE (py_float e dur) (\<lambda>duration_seconds.
     bindE (py_get fmt ''bit_rate'' (JInt 0)) (\<lambda>br.
     bindE (py_int e br) (\<lambda>bitrate.
     bindE (py_get fmt ''size'' (JInt 0)) (\<lambda>sz.
     bindE (py_int e sz) (\<lambda>file_size.
     (let metadata =
            [(''extraction_method'', JStr ''ffprobe''),
             (''format'', fmt),
             (''video_streams'', JInt (int (length video_streams))),
             (''audio_streams'', JInt (int (length audio_streams))),
             (''duration_seconds'', JFloat duration_seconds),
             (''bitrate'', JInt bitrate),
             (''file_size'', JInt file_size)]
      in case video_streams of
           [] \<Rightarrow> Inr (JObj metadata)
         | JObj primary_video # _ \<Rightarrow>
             Inr (JObj (metadata @ [(''video_details'', video_details e primary_video)]))
         | _ # _ \<Rightarrow> Inl AttributeError))))))))))))"

definition ffprobe_not_found :: string where
  "ffprobe_not_found =
     ''ffprobe not found - install ffmpeg to enable video metadata extraction''"

definition wrap_failure :: "exn \<Rightarrow> exn" where
  \<comment> \<open>the last handler of \<^verbatim>\<open>_extract_with_ffprobe\<close>\<close>
  "wrap_failure x = Exception (''ffprobe extraction failed: '' @ str_exn x)"

text \<open>
  \<^verbatim>\<open>MetadataExtractor._extract_with_ffprobe\<close>: every way out other than the
  metadata is an \<^verbatim>\<open>Exception\<close>. The availability check runs with
  \<^verbatim>\<open>check=True\<close>, so a return code other than 0 raises there.
\<close>

definition extract_with_ffprobe :: "env \<Rightarrow> string \<Rightarrow> exn + json" where
  "extract_with_ffprobe e file_path =
     (case ffprobe_version e of
        ProcNotFound \<Rightarrow> Inl (wrap_failure (Exception ffprobe_not_found))
      | ProcTimeout \<Rightarrow> Inl (wrap_failure (Exception ffprobe_not_found))
      | ProcExit vrc vout verr \<Rightarrow>
          if vrc \<noteq> 0 then Inl (wrap_failure (Exception ffprobe_not_found))
          else
            (case ffprobe_run e file_path of
               ProcNotFound \<Rightarrow> Inl (Exception ffprobe_not_found)
             | ProcTimeout \<Rightarrow> Inl (Exception ''ffprobe timed out'')
             | ProcExit returncode out err \<Rightarrow>
                 if returncode = 0 then
                   (case json_loads e out of
                      None \<Rightarrow> Inl (Exception ''Failed to parse ffprobe output'')
                    | Some probe_data \<Rightarrow>
                        (case build_probe_metadata e probe_data of
                           Inl x \<Rightarrow> Inl (wrap_failure x)
                         | Inr metadata \<Rightarrow> Inr metadata))
                 else
                   Inl (wrap_failure (Exception
                     (''ffprobe failed with return code '' @ show_int returncode
                        @ '': '' @ err)))))"

definition format_table :: "(string \<times> string \<times> string) list" where
  "format_table =
     [(''.mp4'', ''MP4'', ''H.264''),
      (''.avi'', ''AVI'', ''Various''),
      (''.mov'', ''QuickTime'', ''H.264''),
      (''.mkv'', ''Matroska'', ''Various''),
      (''.wmv'', ''Windows Media'', ''WMV''),
      (''.flv'', ''Flash Video'', ''H.264'')]"

text \<open>
  \<^verbatim>\<open>MetadataExtractor._extract_basic_video_info\<close> on a path that is a string: the
  body of its \<^verbatim>\<open>try\<close> raises nothing there.
\<close>

definition extract_basic_video_info :: "string \<Rightarrow> json" where
  "extract_basic_video_info file_path =
     (let file_extension = lower (snd (splitext file_path));
          format_info = (case map_of format_table file_extension of
                           None \<Rightarrow> (''Unknown'', ''Unknown'')
                         | Some fi \<Rightarrow> fi)
      in JObj [(''extraction_method'', JStr ''basic_analysis''),
               (''file_extension'', JStr file_extension),
               (''detected_format'', JStr (fst format_info)),
               (''likely_codec'', JStr (snd format_info)),
               (''note'', JStr ''Limited metadata - install ffmpeg for detailed analysis'')])"

definition extract_video_metadata :: "env \<Rightarrow> string \<Rightarrow> exn + json" where
  \<comment> \<open>the probe first; on any exception of it, the basic analysis\<close>
  "extract_video_metadata e file_path =
     (case extract_with_ffprobe e file_path of
        Inr metadata \<Rightarrow> Inr metadata
      | Inl x \<Rightarrow> Inr (extract_basic_video_info file_path))"

definition get_file_info :: "env \<Rightarrow> world \<Rightarrow> string \<Rightarrow> json" where
  "get_file_info e w file_path =
     (case files w (resolve_path e file_path) of
        None \<Rightarrow>
          JObj [(''error'', JStr (''[Errno 2] No such file or directory: ''
                                   @ CHR 0x27 # file_path @ [CHR 0x27]))]
      | Some stat \<Rightarrow>
          JObj [(''local_path'', JStr file_path),
                (''filename'', JStr (basename file_path)),
                (''file_size_bytes'', JInt (int (st_size stat))),
                (''file_size_mb'', JFloat (py_round2 (of_nat (st_size stat) / (1024 * 1024)))),
                (''file_extension'', JStr (lower (snd (splitext file_path)))),
                (''modification_time'', JStr (st_mtime stat))])"

definition run_placeholder_analysis :: json where
  "run_placeholder_analysis =
     JObj [(''analysis_type'', JStr ''placeholder_gait_analysis''),
           (''status'', JStr ''completed''),
           (''processing_time_seconds'', JFloat 1),
           (''placeholder_results'',
              JObj [(''gait_cycle_detected'', JBool True),
                    (''estimated_stride_length'', JFloat (5 / 4)),
                    (''estimated_cadence'', JInt 110),
                    (''estimated_walking_speed'', JFloat (7 / 5)),
                    (''confidence_score'', JFloat (17 / 20)),
                    (''notes'',
                       JArr [JStr ''This is a placeholder analysis'',
                             JStr ''Replace with actual gait analysis algorithm'',
                             JStr ''Results are simulated for demonstration''])]),
           (''next_steps'',
              JArr [JStr ''Implement actual video processing pipeline'',
                    JStr ''Add machine learning models for gait analysis'',
                    JStr ''Integrate with clinical assessment tools''])]"

fun py_div :: "json \<Rightarrow> rat \<Rightarrow> exn + rat" where
  \<comment> \<open>\<^verbatim>\<open>v / d\<close> for a number \<open>d\<close> other than zero\<close>
  "py_div (JInt i) d = Inr (of_int i / d)"
| "py_div (JFloat r) d = Inr (r / d)"
| "py_div (JBool b) d = Inr ((if b then 1 else 0) / d)"
| "py_div _ d = Inl TypeError"

fun py_times :: "json \<Rightarrow> nat \<Rightarrow> exn + json" where
  \<comment> \<open>\<^verbatim>\<open>v * n\<close>: a number is multiplied, a string or a list repeated\<close>
  "py_times (JInt i) n = Inr (JInt (i * int n))"
| "py_times (JFloat r) n = Inr (JFloat (r * of_nat n))"
| "py_times (JBool b) n = Inr (JInt (if b then int n else 0))"
| "py_times (JStr s) n = Inr (JStr (concat (replicate n s)))"
| "py_times (JArr xs) n = Inr (JArr (concat (replicate n xs)))"
| "py_times _ n = Inl TypeError"

fun py_format_f :: "json \<Rightarrow> exn + unit" where
  \<comment> \<open>the format \<^verbatim>\<open>:.1f\<close>: for numbers only\<close>
  "py_format_f (JInt i) = Inr ()"
| "py_format_f (JFloat r) = Inr ()"
| "py_format_f (JBool b) = Inr ()"
| "py_format_f (JStr s) = Inl ValueError"
| "py_format_f _ = Inl TypeError"

definition if_in :: "string \<Rightarrow> json \<Rightarrow> (json \<Rightarrow> exn + unit) \<Rightarrow> exn + unit" where
  \<comment> \<open>\<^verbatim>\<open>if 'k' in v: x = v['k']; ...\<close>\<close>
  "if_in k v body =
     bindE (py_in k v) (\<lambda>present.
     if present then bindE (py_getitem v k) body else Inr ())"

text \<open>
  \<^verbatim>\<open>MetadataExtractor._print_metadata_summary\<close>. What it prints goes to the console
  and is outside the model; what is kept is every operation on the metadata that can
  raise: \<^verbatim>\<open>get\<close> on a value that is no dictionary, a division or a number format on a
  value that is no number, a loop over a value that cannot be iterated. The part on the
  video step's metadata and the part on the placeholder analysis are given names of
  their own.
\<close>

definition print_video_summary :: "json \<Rightarrow> exn + unit" where
  "print_video_summary video_meta =
     bindE (py_get video_meta ''extraction_method'' (JStr ''Unknown'')) (\<lambda>_.
     bindE (if_in ''video_details'' video_meta (\<lambda>details.
              bindE (py_get details ''width'' (JStr ''?'')) (\<lambda>_.
              bindE (py_get details ''height'' (JStr ''?'')) (\<lambda>_.
              bindE (py_get details ''fps'' (JStr ''?'')) (\<lambda>_.
              bindE (py_get details ''codec'' (JStr ''Unknown'')) (\<lambda>_.
              bindE (py_get details ''aspect_ratio'' (JStr ''Unknown'')) (\<lambda>_.
              bindE (py_get details ''pixel_format'' (JStr ''Unknown'')) (\<lambda>_.
              Inr ())))))))) (\<lambda>_.
     bindE (if_in ''duration_seconds'' video_meta (\<lambda>duration.
              bindE (py_div duration 60) (\<lambda>_. Inr ()))) (\<lambda>_.
     bindE (if_in ''bitrate'' video_meta (\<lambda>bitrate.
              bindE (py_div bitrate 1000000) (\<lambda>_. Inr ()))) (\<lambda>_.
     bindE (if_in ''video_streams'' video_meta (\<lambda>_. Inr ())) (\<lambda>_.
     if_in ''audio_streams'' video_meta (\<lambda>_. Inr ()))))))"

definition print_placeholder_summary :: "json \<Rightarrow> exn + unit" where
  "print_placeholder_summary metadata =
     bindE (py_get metadata ''placeholder_analysis'' (JObj [])) (\<lambda>placeholder_analysis.
     bindE (py_get placeholder_analysis ''analysis_results'' (JObj [])) (\<lambda>analysis_results.
     bindE (py_get placeholder_analysis ''warning'' (JStr ''Unknown'')) (\<lambda>_.
     bindE (py_get analysis_results ''status'' (JStr ''Unknown'')) (\<lambda>_.
     bindE (if_in ''placeholder_results'' analysis_results (\<lambda>results.
              bindE (py_get results ''gait_cycle_detected'' (JBool False)) (\<lambda>_.
              bindE (py_get results ''estimated_stride_length'' (JInt 0)) (\<lambda>_.
              bindE (py_get results ''estimated_cadence'' (JInt 0)) (\<lambda>_.
              bindE (py_get results ''estimated_walking_speed'' (JInt 0)) (\<lambda>_.
              bindE (py_get results ''confidence_score'' (JInt 0)) (\<lambda>confidence.
              bindE (py_times confidence 100) py_format_f))))))) (\<lambda>_.
     bindE (py_get analysis_results ''next_steps'' (JArr [])) (\<lambda>next_steps.
     bindE (py_iter next_steps) (\<lambda>_. Inr ())))))))"

definition print_metadata_summary :: "json \<Rightarrow> exn + unit" where
  "print_metadata_summary metadata =
     bindE (py_get metadata ''processing_info'' (JObj [])) (\<lambda>processing_info.
     bindE (py_get processing_info ''processing_timestamp'' (JStr ''Unknown'')) (\<lambda>_.
     bindE (py_get processing_info ''processor_version'' (JStr ''Unknown'')) (\<lambda>_.
     bindE (py_get metadata ''real_metadata'' (JObj [])) (\<lambda>real_metadata.
     bindE (py_get real_metadata ''file_info'' (JObj [])) (\<lambda>file_info.
     bindE (py_get file_info ''filename'' (JStr ''Unknown'')) (\<lambda>_.
     bindE (py_get file_info ''file_size_mb'' (JInt 0)) (\<lambda>_.
     bindE (py_get file_info ''modification_time'' (JStr ''Unknown'')) (\<lambda>_.
     bindE (py_get file_info ''file_extension'' (JStr ''Unknown'')) (\<lambda>_.
     bindE (py_get real_metadata ''s3_info'' (JObj [])) (\<lambda>s3_info.
     bindE (py_get s3_info ''bucket'' (JStr ''unknown'')) (\<lambda>_.
     bindE (py_get s3_info ''key'' (JStr ''unknown'')) (\<lambda>_.
     bindE (py_get s3_info ''content_type'' (JStr ''Unknown'')) (\<lambda>_.
     bindE (py_get s3_info ''etag'' (JStr ''Unknown'')) (\<lambda>_.
     bindE (py_get s3_info ''storage_class'' (JStr ''Unknown'')) (\<lambda>_.
     bindE (py_get real_metadata ''video_technical_metadata'' (JObj [])) (\<lambda>video_meta.
     bindE (print_video_summary video_meta) (\<lambda>_.
     print_placeholder_summary metadata)))))))))))))))))"

text \<open>
  \<^verbatim>\<open>MetadataExtractor.extract_metadata\<close>: the metadata is built, its summary printed
  and the metadata returned. An exception of the video step or of the summary leaves
  the function; the summary raises where the source-object attributes are no dictionary.
\<close>

definition extract_metadata :: "env \<Rightarrow> world \<Rightarrow> string \<Rightarrow> json \<Rightarrow> exn + json" where
  "extract_metadata e w file_path s3_metadata =
     bindE (extract_video_metadata e file_path) (\<lambda>video.
     (let metadata =
        JObj
          [(''processing_info'',
              JObj [(''processing_timestamp'', JStr (utcnow e)),
                    (''processor_version'', JStr ''1.0.0''),
                    (''extraction_status'', JStr ''completed'')]),
           (''real_metadata'',
              JObj [(''file_info'', get_file_info e w file_path),
                    (''s3_info'', s3_metadata),
                    (''video_technical_metadata'', video)]),
           (''placeholder_analysis'',
              JObj [(''note'',
                       JStr ''THIS IS PLACEHOLDER DATA - Replace with actual gait analysis''),
                    (''analysis_results'', run_placeholder_analysis),
                    (''warning'',
                       JStr ''These results are simulated for demonstration purposes only'')])]
      in bindE (print_metadata_summary metadata) (\<lambda>_. Inr metadata)))"

section \<open>The record store\<close>

text \<open>
  \<^verbatim>\<open>DatabaseUpdater._extract_upload_id_from_key\<close>. On a key that is not a string
  \<^verbatim>\<open>split\<close> raises and the handler returns \<^verbatim>\<open>None\<close>; on a string nothing in
  the body raises.
\<close>

definition extract_upload_id_from_key :: "json \<Rightarrow> string option" where
  "extract_upload_id_from_key s3_key' =
     (case s3_key' of
        JStr k \<Rightarrow>
          (let key_parts = split_on CHR ''/'' k in
           if length key_parts \<ge> 4 \<and> key_parts ! 0 = ''uploads'' then
             (let filename = last key_parts;
                  upload_id' = split_on CHR ''.'' filename ! 0
              in Some upload_id')
           else None)
      | _ \<Rightarrow> None)"

definition storable :: "env \<Rightarrow> json \<Rightarrow> bool" where
  \<comment> \<open>the store can bind the value to a string column: a string or \<^verbatim>\<open>None\<close> always, a
      list or a dictionary never\<close>
  "storable e v =
     (case v of
        JStr s \<Rightarrow> True
      | JNull \<Rightarrow> True
      | JArr xs \<Rightarrow> False
      | JObj d \<Rightarrow> False
      | _ \<Rightarrow> db_binds e v)"

definition next_id :: "processing_record list \<Rightarrow> nat" where
  \<comment> \<open>the store numbers the rows: one more than the largest id in the table\<close>
  "next_id rs = Suc (fold max (map rec_id rs) 0)"

text \<open>
  \<^verbatim>\<open>DatabaseUpdater.create_processing_record\<close>. The columns left out take their
  defaults: no completion time, no metadata, no error message, \<open>retry_count = 0\<close>. The
  commit raises where the store is out of service or cannot bind the bucket or the key;
  the handler then returns \<^verbatim>\<open>None\<close> and no row is written.
\<close>

definition create_processing_record ::
  "env \<Rightarrow> world \<Rightarrow> json \<Rightarrow> json \<Rightarrow> string option \<Rightarrow> nat option \<times> world" where
  "create_processing_record e w s3_bucket' s3_key' upload_id_arg =
     (if \<not> db_up e \<or> \<not> storable e s3_bucket' \<or> \<not> storable e s3_key' then (None, w)
      else
        (let upload_id' =
               (case upload_id_arg of
                  None \<Rightarrow> extract_upload_id_from_key s3_key'
                | Some u \<Rightarrow> if u = [] then extract_upload_id_from_key s3_key' else Some u);
             record_id = next_id (records w);
             record =
               \<lparr>rec_id = record_id,
                upload_id = upload_id',
                s3_bucket = s3_bucket',
                s3_key = s3_key',
                processing_status = ''processing'',
                processing_started = Some (utcnow e),
                processing_completed = None,
                metadata_json = None,
                error_message = None,
                retry_count = 0\<rparr>
         in (Some record_id, w\<lparr>records := records w @ [record]\<rparr>)))"

fun update_first :: "('a \<Rightarrow> bool) \<Rightarrow> ('a \<Rightarrow> 'a) \<Rightarrow> 'a list \<Rightarrow> 'a list" where
  \<comment> \<open>\<^verbatim>\<open>query.filter(...).first()\<close> and the change to the row it returns\<close>
  "update_first P f [] = []"
| "update_first P f (x # xs) = (if P x then f x # xs else x # update_first P f xs)"

definition apply_status ::
  "env \<Rightarrow> string \<Rightarrow> json option \<Rightarrow> string option \<Rightarrow> processing_record \<Rightarrow> processing_record" where
  "apply_status e status metadata error_message_arg record =
     (let r = record\<lparr>processing_status := status\<rparr> in
      if status = ''completed'' then
        (let r1 = r\<lparr>processing_completed := Some (utcnow e)\<rparr> in
         case metadata of
           None \<Rightarrow> r1
         | Some m \<Rightarrow> if truthy m then r1\<lparr>metadata_json := Some m\<rparr> else r1)
      else if status = ''failed'' then
        (let r1 = r\<lparr>processing_completed := Some (utcnow e)\<rparr>;
             r2 = (case error_message_arg of
                     None \<Rightarrow> r1
                   | Some msg \<Rightarrow> if msg \<noteq> [] then r1\<lparr>error_message := Some msg\<rparr> else r1)
         in r2\<lparr>retry_count := retry_count r2 + 1\<rparr>)
      else r)"

text \<open>
  \<^verbatim>\<open>DatabaseUpdater.update_processing_status\<close>: nothing changes when the store is
  down or has no row of that id.
\<close>

definition update_processing_status ::
  "env \<Rightarrow> world \<Rightarrow> nat \<Rightarrow> string \<Rightarrow> json option \<Rightarrow> string option \<Rightarrow> world" where
  "update_processing_status e w record_id status metadata error_message_arg =
     (if \<not> db_up e then w
      else w\<lparr>records :=
                update_first (\<lambda>r. rec_id r = record_id)
                  (apply_status e status metadata error_message_arg) (records w)\<rparr>)"

section \<open>The orchestrator\<close>

definition update_if_tracked ::
  "env \<Rightarrow> world \<Rightarrow> nat option \<Rightarrow> string \<Rightarrow> json option \<Rightarrow> string option \<Rightarrow> world" where
  \<comment> \<open>\<^verbatim>\<open>if record_id: await update_processing_status(...)\<close>\<close>
  "update_if_tracked e w record_id status metadata error_message_arg =
     (case record_id of
        None \<Rightarrow> w
      | Some n \<Rightarrow>
          if n \<noteq> 0 then update_processing_status e w n status metadata error_message_arg
          else w)"

text \<open>
  The body of the \<^verbatim>\<open>try\<close> in \<^verbatim>\<open>process_message\<close>: the exception raised, if
  any, and the world as it is then.
\<close>

definition process_steps ::
  "config \<Rightarrow> env \<Rightarrow> world \<Rightarrow> event \<Rightarrow> nat option \<Rightarrow> (exn + unit) \<times> world" where
  "process_steps cfg e w message record_id =
     (case download_file cfg e w (bucket message) (key message) None of
        (None, w1) \<Rightarrow> (Inl (Exception ''Failed to download file from S3''), w1)
      | (Some local_file_path, w1) \<Rightarrow>
          if local_file_path = [] then (Inl (Exception ''Failed to download file from S3''), w1)
          else
            (let w2 = w1\<lparr>files_downloaded := files_downloaded w1 + 1\<rparr>;
                 s3_metadata = get_file_metadata e (bucket message) (key message);
                 s3_arg = (case s3_metadata of
                             None \<Rightarrow> JObj []
                           | Some m \<Rightarrow> if truthy m then m else JObj [])
             in case extract_metadata e w2 local_file_path s3_arg of
                  Inl x \<Rightarrow> (Inl x, w2)
                | Inr extracted_metadata \<Rightarrow>
                    (let w3 = update_if_tracked e w2 record_id ''completed''
                                (Some extracted_metadata) None;
                         w4 = (if CLEANUP_AFTER_PROCESSING cfg
                               then snd (cleanup_file e w3 local_file_path) else w3);
                         w5 = w4\<lparr>sqs_deleted := delete_message (sqs_deleted w4) (Inl message)\<rparr>
                     in (Inr (), w5))))"

text \<open>
  \<^verbatim>\<open>AnalysisService.process_message\<close>: the record is created, the steps run, and an
  exception of theirs marks the record failed and is raised again.
\<close>

definition process_message ::
  "config \<Rightarrow> env \<Rightarrow> world \<Rightarrow> event \<Rightarrow> (exn + unit) \<times> world" where
  "process_message cfg e w message =
     (case create_processing_record e w (bucket message) (key message) None of
        (record_id, w0) \<Rightarrow>
          (case process_steps cfg e w0 message record_id of
             (Inr u, w1) \<Rightarrow> (Inr u, w1)
           | (Inl x, w1) \<Rightarrow>
               (Inl x, update_if_tracked e w1 record_id ''failed'' None (Some (str_exn x)))))"

text \<open>The body of the loop over the messages in \<^verbatim>\<open>process_cycle\<close>.\<close>

definition handle_message :: "config \<Rightarrow> env \<Rightarrow> world \<Rightarrow> event \<Rightarrow> world" where
  "handle_message cfg e w message =
     (case process_message cfg e w message of
        (Inr u, w1) \<Rightarrow> w1\<lparr>messages_processed := messages_processed w1 + 1\<rparr>
      | (Inl x, w1) \<Rightarrow>
          (let w2 = w1\<lparr>processing_errors := processing_errors w1 + 1\<rparr>
           in w2\<lparr>sqs_deleted := delete_message (sqs_deleted w2) (Inl message)\<rparr>))"

text \<open>
  \<^verbatim>\<open>AnalysisService.process_cycle\<close>: one poll, then every event of the batch in
  turn.
\<close>

definition process_cycle :: "config \<Rightarrow> env \<Rightarrow> world \<Rightarrow> world" where
  "process_cycle cfg e w =
     (case poll_messages cfg (json_loads e) (receive_message e (polls w)) (sqs_deleted w) of
        (messages, deleted) \<Rightarrow>
          (let w1 = w\<lparr>sqs_deleted := deleted, polls := polls w + 1\<rparr> in
           if messages = [] then w1
           else (fold (\<lambda>message w'. handle_message cfg e w' message) messages w1)
                  \<lparr>last_activity := Some (utcnow e)\<rparr>))"

definition max_runtime_seconds :: "config \<Rightarrow> rat option" where
  "max_runtime_seconds cfg =
     (if MAX_RUNTIME_HOURS cfg > 0 then Some (MAX_RUNTIME_HOURS cfg * 3600) else None)"

definition limit_reached :: "config \<Rightarrow> env \<Rightarrow> nat \<Rightarrow> bool" where
  \<comment> \<open>the check at the top of the loop; a limit of \<^verbatim>\<open>None\<close> or 0 is not checked\<close>
  "limit_reached cfg e n =
     (case max_runtime_seconds cfg of
        None \<Rightarrow> False
      | Some limit \<Rightarrow> limit \<noteq> 0 \<and> elapsed_seconds e n \<ge> limit)"

text \<open>
  The \<^verbatim>\<open>while self.running\<close> loop of \<^verbatim>\<open>AnalysisService.start\<close>, from its
  \<open>n\<close>-th pass on. The loop need not end, so the model runs it for at most \<open>fuel\<close>
  passes: \<open>Some w\<close> is the world when the loop is left, \<open>None\<close> says it is still
  running. The pause between two passes only lets time go by, which the readings
  \<open>elapsed_seconds\<close> account for; an interrupt from the keyboard is outside the model.
\<close>

fun main_loop :: "nat \<Rightarrow> config \<Rightarrow> env \<Rightarrow> nat \<Rightarrow> world \<Rightarrow> world option" where
  "main_loop 0 cfg e n w = (if \<not> running w \<or> limit_reached cfg e n then Some w else None)"
| "main_loop (Suc fuel) cfg e n w =
     (if \<not> running w then Some w
      else if limit_reached cfg e n then Some w
      else main_loop fuel cfg e (Suc n) (process_cycle cfg e w))"

section \<open>The specification's notions\<close>


fun field :: "json \<Rightarrow> string \<Rightarrow> json option" where
  "field (JObj d) k = map_of d k"
| "field _ k = None"

text \<open>
  A record of an event envelope passes the validation: its source tag is the expected
  one, its event name has the expected prefix, its bucket is the configured one and its
  key starts with the configured prefix and a slash.
\<close>

definition passes_checks :: "config \<Rightarrow> json \<Rightarrow> bool" where
  "passes_checks cfg rec =
     (case rec of
        JObj d \<Rightarrow>
          dict_get d ''eventSource'' (JStr []) = JStr (EXPECTED_S3_EVENT_SOURCE cfg)
          \<and> (case dict_get d ''eventName'' (JStr []) of
                JStr n \<Rightarrow> startswith n (EXPECTED_S3_EVENT_PREFIX cfg)
              | _ \<Rightarrow> False)
          \<and> Option.bind (Option.bind (field rec ''s3'') (\<lambda>s. field s ''bucket''))
                (\<lambda>b. field b ''name'') = Some (JStr (S3_BUCKET cfg))
          \<and> (case Option.bind (Option.bind (field rec ''s3'') (\<lambda>s. field s ''object''))
                     (\<lambda>obj. field obj ''key'') of
                Some (JStr k) \<Rightarrow> startswith k (S3_PREFIX cfg @ ''/'')
              | _ \<Rightarrow> False)
      | _ \<Rightarrow> False)"

text \<open>
  The probe path fails: the tool is absent, the availability check or the extraction
  call times out, one of them exits with a code other than 0, or the output does not
  decode.
\<close>

definition probe_fails :: "env \<Rightarrow> string \<Rightarrow> bool" where
  "probe_fails e file_path =
     (case ffprobe_version e of
        ProcNotFound \<Rightarrow> True
      | ProcTimeout \<Rightarrow> True
      | ProcExit vrc vout verr \<Rightarrow>
          vrc \<noteq> 0 \<or>
          (case ffprobe_run e file_path of
             ProcNotFound \<Rightarrow> True
           | ProcTimeout \<Rightarrow> True
           | ProcExit returncode out err \<Rightarrow> returncode \<noteq> 0 \<or> json_loads e out = None))"

section \<open>Sample inputs\<close>

definition s3_record :: "string \<Rightarrow> string \<Rightarrow> string \<Rightarrow> string \<Rightarrow> json" where
  \<comment> \<open>one record of an object-store event notification\<close>
  "s3_record source name b k =
     JObj [(''eventSource'', JStr source),
           (''eventName'', JStr name),
           (''eventTime'', JStr ''2024-01-01T00:00:00.000Z''),
           (''awsRegion'', JStr ''us-east-1''),
           (''s3'', JObj [(''bucket'', JObj [(''name'', JStr b)]),
                          (''object'', JObj [(''key'', JStr k),
                                             (''size'', JInt 1000),
                                             (''eTag'', JStr ''abc'')])])]"

definition envelope :: "json list \<Rightarrow> json" where
  "envelope rs = JObj [(''Records'', JArr rs)]"

definition msg1 :: raw_message where
  "msg1 = \<lparr>MessageId = ''m1'', ReceiptHandle = ''rh1'', Body = ''body1''\<rparr>"

definition record_a :: json where
  \<comment> \<open>a record for another bucket\<close>
  "record_a = s3_record ''aws:s3'' ''ObjectCreated:Put'' ''other-bucket'' ''uploads/u1/s1/a.mp4''"

definition record_b :: json where
  "record_b = s3_record ''aws:s3'' ''ObjectCreated:Put'' ''dancer-uploads'' ''uploads/u1/s1/b.mp4''"

definition record_c :: json where
  "record_c = s3_record ''aws:s3'' ''ObjectCreated:Put'' ''dancer-uploads'' ''uploads/u1/s1/c.mp4''"

definition record_no_s3 :: json where
  \<comment> \<open>a record of the expected source and event name that has no \<^verbatim>\<open>s3\<close> entry\<close>
  "record_no_s3 =
     JObj [(''eventSource'', JStr ''aws:s3''), (''eventName'', JStr ''ObjectCreated:Put'')]"

definition msg2 :: raw_message where
  "msg2 = \<lparr>MessageId = ''m2'', ReceiptHandle = ''rh2'', Body = ''body2''\<rparr>"

definition three_records :: "json list" where
  "three_records = [record_a, record_b, record_c]"

definition sample_loads :: "string \<Rightarrow> json option" where
  \<comment> \<open>a decoder that knows the sample bodies and refuses every other text\<close>
  "sample_loads =
     map_of
       [(''body1'', envelope three_records),
        (''body2'', envelope [record_no_s3, record_b]),
        (''wrong-source'',
           envelope [s3_record ''aws:sns'' ''ObjectCreated:Put'' ''dancer-uploads''
                       ''uploads/u1/s1/a.mp4'']),
        (''wrong-name'',
           envelope [s3_record ''aws:s3'' ''ObjectRemoved:Delete'' ''dancer-uploads''
                       ''uploads/u1/s1/a.mp4'']),
        (''wrong-bucket'',
           envelope [s3_record ''aws:s3'' ''ObjectCreated:Put'' ''other-bucket''
                       ''uploads/u1/s1/a.mp4'']),
        (''wrong-prefix'',
           envelope [s3_record ''aws:s3'' ''ObjectCreated:Put'' ''dancer-uploads''
                       ''videos/u1/s1/a.mp4''])]"

definition invalid_messages :: "raw_message list" where
  \<comment> \<open>one message for each validation step that can fail\<close>
  "invalid_messages =
     [\<lparr>MessageId = ''m1'', ReceiptHandle = ''rh1'', Body = ''not json''\<rparr>,
      \<lparr>MessageId = ''m2'', ReceiptHandle = ''rh2'', Body = ''wrong-source''\<rparr>,
      \<lparr>MessageId = ''m3'', ReceiptHandle = ''rh3'', Body = ''wrong-name''\<rparr>,
      \<lparr>MessageId = ''m4'', ReceiptHandle = ''rh4'', Body = ''wrong-bucket''\<rparr>,
      \<lparr>MessageId = ''m5'', ReceiptHandle = ''rh5'', Body = ''wrong-prefix''\<rparr>]"

definition second_event :: event where
  \<comment> \<open>the event of the second of the three sample records\<close>
  "second_event =
     \<lparr>message_id = ''m1'', receipt_handle = ''rh1'',
      bucket = JStr ''dancer-uploads'', key = JStr ''uploads/u1/s1/b.mp4'',
      size_v = JInt 1000, etag = Some (JStr ''abc''),
      event_name = JStr ''ObjectCreated:Put'',
      event_time = JStr ''2024-01-01T00:00:00.000Z'',
      event_source = Some (JStr ''aws:s3''),
      aws_region = Some (JStr ''us-east-1''),
      raw_message = msg1\<rparr>"

definition sample_env :: env where
  \<comment> \<open>the object store holds every object, paths are resolved by dropping their trailing
      slashes, the probe tool is not installed, the queue
      delivers \<open>msg1\<close> once, each pass of the main loop starts 1000 seconds after the
      one before\<close>
  "sample_env =
     \<lparr>head_object = (\<lambda>b k. HeadOk [(''ContentLength'', JInt 5), (''ETag'', JStr ''abc'')]),
      s3_download = (\<lambda>b k. Transferred 5),
      resolve_path = (\<lambda>p. if rstrip_char CHR ''/'' p = [] then p else rstrip_char CHR ''/'' p),
      dir_size = 4096,
      ffprobe_version = ProcNotFound,
      ffprobe_run = (\<lambda>path. ProcNotFound),
      json_loads = sample_loads,
      float_of_str = decimal_numeral,
      int_of_str = (\<lambda>s. if s = [] then None else map_option int (digits_value 0 s)),
      db_up = True,
      db_binds = (\<lambda>v. True),
      utcnow = ''2024-01-01T00:00:00'',
      receive_message = (\<lambda>n. if n = 0 then Received [msg1] else Received []),
      elapsed_seconds = (\<lambda>n. of_nat n * 1000)\<rparr>"

definition empty_world :: world where
  "empty_world =
     \<lparr>sqs_deleted = [], files = Map.empty, records = [],
      messages_processed = 0, files_downloaded = 0, processing_errors = 0,
      last_activity = None, running = True, polls = 0\<rparr>"

definition probe_env :: env where
  \<comment> \<open>the probe tool is installed and describes one video stream and one audio stream\<close>
  "probe_env =
     sample_env
       \<lparr>ffprobe_version := ProcExit 0 ''ffprobe version 6.0'' [],
        ffprobe_run := (\<lambda>path. ProcExit 0 ''probe-output'' []),
        json_loads :=
          map_of
            [(''probe-output'',
              JObj [(''streams'',
                       JArr [JObj [(''codec_type'', JStr ''video''),
                                   (''codec_name'', JStr ''h264''),
                                   (''width'', JInt 1920),
                                   (''height'', JInt 1080),
                                   (''r_frame_rate'', JStr ''30/1'')],
                             JObj [(''codec_type'', JStr ''audio'')]]),
                    (''format'',
                       JObj [(''duration'', JStr ''12''),
                             (''bit_rate'', JStr ''800000''),
                             (''size'', JStr ''1200000'')])])]\<rparr>"

definition probe_result :: json where
  "probe_result =
     JObj [(''extraction_method'', JStr ''ffprobe''),
           (''format'',
              JObj [(''duration'', JStr ''12''),
                    (''bit_rate'', JStr ''800000''),
                    (''size'', JStr ''1200000'')]),
           (''video_streams'', JInt 1),
           (''audio_streams'', JInt 1),
           (''duration_seconds'', JFloat 12),
           (''bitrate'', JInt 800000),
           (''file_size'', JInt 1200000),
           (''video_details'',
              JObj [(''codec'', JStr ''h264''),
                    (''width'', JInt 1920),
                    (''height'', JInt 1080),
                    (''fps'', JFloat 30),
                    (''aspect_ratio'', JNull),
                    (''pixel_format'', JNull)])]"

definition empty_file_env :: env where
  \<comment> \<open>the transfer succeeds and writes a file of no bytes\<close>
  "empty_file_env = sample_env\<lparr>s3_download := (\<lambda>b k. Transferred 0)\<rparr>"

definition no_file_env :: env where
  \<comment> \<open>the transfer reports success and writes no file\<close>
  "no_file_env = sample_env\<lparr>s3_download := (\<lambda>b k. TransferredNothing)\<rparr>"

definition not_found_env :: env where
  \<comment> \<open>the object store has no such object\<close>
  "not_found_env = sample_env\<lparr>head_object := (\<lambda>b k. HeadClientError ''NoSuchKey'')\<rparr>"

definition denied_head_env :: env where
  \<comment> \<open>the object store serves the object and refuses the metadata lookup\<close>
  "denied_head_env = sample_env\<lparr>head_object := (\<lambda>b k. HeadClientError ''AccessDenied'')\<rparr>"

definition downloads_dir_world :: world where
  \<comment> \<open>the empty world once the download directory has been made\<close>
  "downloads_dir_world =
     empty_world\<lparr>files :=
       [''.'' \<mapsto> \<lparr>st_isdir = True, st_size = 4096, st_mtime = ''2024-01-01T00:00:00''\<rparr>,
        ''./temp_downloads'' \<mapsto>
          \<lparr>st_isdir = True, st_size = 4096, st_mtime = ''2024-01-01T00:00:00''\<rparr>]\<rparr>"

definition list_key_event :: event where
  \<comment> \<open>an event of the direct format whose key is a list\<close>
  "list_key_event =
     \<lparr>message_id = ''m3'', receipt_handle = ''rh3'',
      bucket = JStr ''dancer-uploads'', key = JArr [JStr ''k''],
      size_v = JInt 0, etag = None,
      event_name = JStr ''manual'', event_time = JNull,
      event_source = None, aws_region = None,
      raw_message = \<lparr>MessageId = ''m3'', ReceiptHandle = ''rh3'', Body = ''body3''\<rparr>\<rparr>"

section \<open>Basic facts\<close>

lemma bindE_Inl [simp]: "bindE (Inl x) f = Inl x"
  by (simp add: bindE_def)

lemma bindE_Inr [simp]: "bindE (Inr a) f = f a"
  by (simp add: bindE_def)

lemma bindE_eq_Inr: "bindE m f = Inr y \<longleftrightarrow> (\<exists>a. m = Inr a \<and> f a = Inr y)"
  by (cases m) auto

lemma split_on_nonempty: "split_on c s \<noteq> []"
  by (induction s) (auto split: list.splits)

lemma py_get_Inr: "py_get v k d = Inr x \<longleftrightarrow> (\<exists>m. v = JObj m \<and> x = dict_get m k d)"
  by (cases v) auto

lemma py_getitem_Inr: "py_getitem v k = Inr x \<longleftrightarrow> field v k = Some x"
  by (cases v) (auto split: option.splits)

lemma py_startswith_Inr:
  "py_startswith v p = Inr b \<longleftrightarrow> (\<exists>s. v = JStr s \<and> b = startswith s p)"
  by (cases v) auto

lemma field_Some_obj: "field v k = Some x \<Longrightarrow> \<exists>m. v = JObj m"
  by (cases v) auto

section \<open>The upload id\<close>

lemma split_on_notin: "c \<notin> set s \<Longrightarrow> split_on c s = [s]"
  by (induction s) auto

lemma split_on_append: "c \<notin> set s \<Longrightarrow> split_on c (s @ c # t) = s # split_on c t"
  by (induction s) auto

lemma hd_split_on: "hd (split_on c s) = takeWhile (\<lambda>x. x \<noteq> c) s"
  using split_on_nonempty [of c]
  by (induction s) (auto split: list.splits)

lemma split_on_pieces: "w \<in> set (split_on c s) \<Longrightarrow> c \<notin> set w"
  by (induction s arbitrary: w) (auto split: if_splits list.splits)

lemma basename_no_slash: "CHR ''/'' \<notin> set (basename k)"
  using split_on_pieces [of "basename k" "CHR ''/''" k] split_on_nonempty [of "CHR ''/''" k]
  by (simp add: basename_def)

lemma basename_idem: "CHR ''/'' \<notin> set f \<Longrightarrow> basename f = f"
  by (simp add: basename_def split_on_notin)

lemma extract_upload_id_rule:
  assumes "4 \<le> length (split_on CHR ''/'' k)" and "hd (split_on CHR ''/'' k) = ''uploads''"
  shows "extract_upload_id_from_key (JStr k) = Some (takeWhile (\<lambda>c. c \<noteq> CHR ''.'') (basename k))"
proof -
  have "split_on CHR ''/'' k ! 0 = ''uploads''"
    using assms split_on_nonempty [of "CHR ''/''" k] by (simp add: hd_conv_nth)
  moreover have "split_on CHR ''.'' (basename k) ! 0 = takeWhile (\<lambda>c. c \<noteq> CHR ''.'') (basename k)"
    using hd_split_on [of "CHR ''.''" "basename k"] split_on_nonempty [of "CHR ''.''" "basename k"]
    by (simp add: hd_conv_nth)
  ultimately show ?thesis
    using assms(1) by (simp add: extract_upload_id_from_key_def Let_def basename_def)
qed

lemma one_dot_split:
  assumes "length (filter (\<lambda>c. c = CHR ''.'') f) \<le> 1" and "CHR ''.'' \<in> set f"
  obtains s t where "f = s @ CHR ''.'' # t" and "CHR ''.'' \<notin> set s" and "CHR ''.'' \<notin> set t"
proof -
  from assms(2) obtain s t where f: "f = s @ CHR ''.'' # t" and s: "CHR ''.'' \<notin> set s"
    by (meson split_list_first)
  have "CHR ''.'' \<notin> set t"
  proof
    assume "CHR ''.'' \<in> set t"
    then have "filter (\<lambda>c. c = CHR ''.'') t \<noteq> []"
      by (simp add: filter_empty_conv)
    then have "1 \<le> length (filter (\<lambda>c. c = CHR ''.'') t)"
      by (cases "filter (\<lambda>c. c = CHR ''.'') t") auto
    with assms(1) f show False by simp
  qed
  with f s that show ?thesis by blast
qed

lemma stem_is_splitext:
  assumes "CHR ''/'' \<notin> set f" and "length (filter (\<lambda>c. c = CHR ''.'') f) \<le> 1"
    and "f = [] \<or> hd f \<noteq> CHR ''.''"
  shows "takeWhile (\<lambda>c. c \<noteq> CHR ''.'') f = fst (splitext f)"
proof (cases "CHR ''.'' \<in> set f")
  case False
  then have "takeWhile (\<lambda>c. c \<noteq> CHR ''.'') f = f"
    by (auto simp: takeWhile_eq_all_conv)
  with False assms(1) show ?thesis
    by (simp add: splitext_def basename_idem Let_def)
next
  case True
  with assms(2) obtain s t where f: "f = s @ CHR ''.'' # t"
    and s: "CHR ''.'' \<notin> set s" and t: "CHR ''.'' \<notin> set t"
    by (rule one_dot_split)
  from f assms(3) have ne: "s \<noteq> []" by (cases s) auto
  have tw: "takeWhile (\<lambda>c. c \<noteq> CHR ''.'') f = s"
    using f s by (subst f, subst takeWhile_append2) auto
  have sp: "split_on CHR ''.'' f = [s, t]"
    using f s t by (simp add: split_on_append split_on_notin)
  have st: "\<exists>c \<in> set s. c \<noteq> CHR ''.''"
    using ne s by (cases s) auto
  show ?thesis
    using tw sp st assms(1) f by (simp add: splitext_def basename_idem Let_def)
qed

text \<open>
  C5: the key \<^verbatim>\<open>uploads/u1/s1/abc123.mp4\<close> gives the upload id \<^verbatim>\<open>abc123\<close>. For every
  key of at least four segments between slashes whose first segment is \<^verbatim>\<open>uploads\<close> the
  upload id is the text of the last segment before its first dot; that is the file name
  minus its extension whenever the file name has at most one dot and does not start
  with it. Every key with fewer than four segments, or whose first segment is not
  \<^verbatim>\<open>uploads\<close>, and every key that is not a string gives no upload id: the function
  returns \<open>None\<close>, and being total it raises nothing.
\<close>

theorem extract_upload_id_from_key_spec:
  "extract_upload_id_from_key (JStr ''uploads/u1/s1/abc123.mp4'') = Some ''abc123''
   \<and> (4 \<le> length (split_on CHR ''/'' k) \<and> hd (split_on CHR ''/'' k) = ''uploads''
        \<longrightarrow> extract_upload_id_from_key (JStr k)
              = Some (takeWhile (\<lambda>c. c \<noteq> CHR ''.'') (basename k))
            \<and> (length (filter (\<lambda>c. c = CHR ''.'') (basename k)) \<le> 1
                 \<and> (basename k = [] \<or> hd (basename k) \<noteq> CHR ''.'')
               \<longrightarrow> extract_upload_id_from_key (JStr k) = Some (fst (splitext (basename k)))))
   \<and> (length (split_on CHR ''/'' k) < 4 \<or> hd (split_on CHR ''/'' k) \<noteq> ''uploads''
        \<longrightarrow> extract_upload_id_from_key (JStr k) = None)
   \<and> ((\<forall>s. v \<noteq> JStr s) \<longrightarrow> extract_upload_id_from_key v = None)"
proof (intro conjI impI; (elim conjE)?)
  show "extract_upload_id_from_key (JStr ''uploads/u1/s1/abc123.mp4'') = Some ''abc123''"
    by (simp add: extract_upload_id_from_key_def)
next
  assume "4 \<le> length (split_on CHR ''/'' k)" and "hd (split_on CHR ''/'' k) = ''uploads''"
  then show "extract_upload_id_from_key (JStr k)
              = Some (takeWhile (\<lambda>c. c \<noteq> CHR ''.'') (basename k))"
    by (rule extract_upload_id_rule)
next
  assume "4 \<le> length (split_on CHR ''/'' k)" and "hd (split_on CHR ''/'' k) = ''uploads''"
    and "length (filter (\<lambda>c. c = CHR ''.'') (basename k)) \<le> 1"
    and "basename k = [] \<or> hd (basename k) \<noteq> CHR ''.''"
  then show "extract_upload_id_from_key (JStr k) = Some (fst (splitext (basename k)))"
    using extract_upload_id_rule [of k] stem_is_splitext [of "basename k"] basename_no_slash [of k]
    by simp
next
  assume h: "length (split_on CHR ''/'' k) < 4 \<or> hd (split_on CHR ''/'' k) \<noteq> ''uploads''"
  have "hd (split_on CHR ''/'' k) = split_on CHR ''/'' k ! 0"
    using split_on_nonempty [of "CHR ''/''" k] by (simp add: hd_conv_nth)
  with h show "extract_upload_id_from_key (JStr k) = None"
    by (auto simp: extract_upload_id_from_key_def Let_def)
next
  assume "\<forall>s. v \<noteq> JStr s"
  then show "extract_upload_id_from_key v = None"
    by (cases v) (simp_all add: extract_upload_id_from_key_def)
qed

theorem extract_upload_id_from_key_spec_witness:
  "4 \<le> length (split_on CHR ''/'' ''uploads/u1/s1/d.tar.gz'')
   \<and> hd (split_on CHR ''/'' ''uploads/u1/s1/d.tar.gz'') = ''uploads''
   \<and> extract_upload_id_from_key (JStr ''uploads/u1/s1/d.tar.gz'') = Some ''d''
   \<and> length (filter (\<lambda>c. c = CHR ''.'') (basename ''uploads/u1/s1/abc123.mp4'')) \<le> 1
   \<and> hd (basename ''uploads/u1/s1/abc123.mp4'') \<noteq> CHR ''.''
   \<and> fst (splitext (basename ''uploads/u1/s1/abc123.mp4'')) = ''abc123''
   \<and> extract_upload_id_from_key (JStr ''uploads/u1/s1/abc123.mp4'')
       = Some (fst (splitext (basename ''uploads/u1/s1/abc123.mp4'')))
   \<and> length (split_on CHR ''/'' ''uploads/onlyonepart.mp4'') < 4
   \<and> extract_upload_id_from_key (JStr ''uploads/onlyonepart.mp4'') = None
   \<and> hd (split_on CHR ''/'' ''videos/u1/s1/abc123.mp4'') \<noteq> ''uploads''
   \<and> extract_upload_id_from_key (JStr ''videos/u1/s1/abc123.mp4'') = None
   \<and> extract_upload_id_from_key (JArr [JStr ''uploads'']) = None"
proof -
  have a: "4 \<le> length (split_on CHR ''/'' ''uploads/u1/s1/d.tar.gz'')"
      "hd (split_on CHR ''/'' ''uploads/u1/s1/d.tar.gz'') = ''uploads''"
      "takeWhile (\<lambda>c. c \<noteq> CHR ''.'') (basename ''uploads/u1/s1/d.tar.gz'') = ''d''"
    by (simp_all add: basename_def)
  have b: "4 \<le> length (split_on CHR ''/'' ''uploads/u1/s1/abc123.mp4'')"
      "hd (split_on CHR ''/'' ''uploads/u1/s1/abc123.mp4'') = ''uploads''"
      "length (filter (\<lambda>c. c = CHR ''.'') (basename ''uploads/u1/s1/abc123.mp4'')) \<le> 1"
      "hd (basename ''uploads/u1/s1/abc123.mp4'') \<noteq> CHR ''.''"
      "fst (splitext (basename ''uploads/u1/s1/abc123.mp4'')) = ''abc123''"
    by (simp_all add: basename_def splitext_def)
  have c: "length (split_on CHR ''/'' ''uploads/onlyonepart.mp4'') < 4"
      "hd (split_on CHR ''/'' ''videos/u1/s1/abc123.mp4'') \<noteq> ''uploads''"
      "\<forall>s. JArr [JStr ''uploads''] \<noteq> JStr s"
    by simp_all
  show ?thesis
    using a b c
      extract_upload_id_from_key_spec [of "''uploads/u1/s1/d.tar.gz''" "JArr [JStr ''uploads'']"]
      extract_upload_id_from_key_spec [of "''uploads/u1/s1/abc123.mp4''" "JArr [JStr ''uploads'']"]
      extract_upload_id_from_key_spec [of "''uploads/onlyonepart.mp4''" "JArr [JStr ''uploads'']"]
      extract_upload_id_from_key_spec [of "''videos/u1/s1/abc123.mp4''" "JArr [JStr ''uploads'']"]
    by simp
qed

section \<open>The frame rate\<close>

lemma round_half_even_nearest:
  assumes "of_int n - 1 / 2 < x" and "x < of_int n + 1 / 2"
  shows "round_half_even x = n"
proof (cases "of_int n \<le> x")
  case True
  then have f: "\<lfloor>x\<rfloor> = n" using assms by (intro floor_unique) auto
  show ?thesis using assms True by (simp add: round_half_even_def f Let_def)
next
  case False
  then have f: "\<lfloor>x\<rfloor> = n - 1" using assms by (intro floor_unique) auto
  show ?thesis using assms False by (simp add: round_half_even_def f Let_def)
qed

lemma py_round2_nearest:
  assumes "of_int n - 1 / 2 < x * 100" and "x * 100 < of_int n + 1 / 2"
  shows "py_round2 x = of_int n / 100"
  by (simp add: py_round2_def round_half_even_nearest [OF assms])




section \<open>Polling\<close>

lemma check_record_passes:
  "check_record cfg message r = Inr (Some ev) \<Longrightarrow> passes_checks cfg r"
  unfolding check_record_def
  apply (clarsimp simp: bindE_eq_Inr py_get_Inr py_startswith_Inr py_getitem_Inr
           simp del: py_getitem.simps split: if_splits)
  apply (simp add: passes_checks_def)
  done

lemma passes_check_record:
  assumes "passes_checks cfg r"
  shows "\<exists>ev. check_record cfg message r = Inr (Some ev)"
proof -
  from assms obtain d where r: "r = JObj d"
    by (cases r) (auto simp: passes_checks_def)
  from assms r have src: "dict_get d ''eventSource'' (JStr []) = JStr (EXPECTED_S3_EVENT_SOURCE cfg)"
    by (simp add: passes_checks_def)
  from assms r obtain n where n: "dict_get d ''eventName'' (JStr []) = JStr n"
      "startswith n (EXPECTED_S3_EVENT_PREFIX cfg)"
    by (auto simp: passes_checks_def split: json.splits)
  from assms r obtain s3 b where s3: "map_of d ''s3'' = Some s3" "field s3 ''bucket'' = Some b"
      "field b ''name'' = Some (JStr (S3_BUCKET cfg))"
    by (auto simp: passes_checks_def Option.bind_eq_Some_conv)
  from assms r s3 obtain obj k where obj: "field s3 ''object'' = Some obj"
      "field obj ''key'' = Some (JStr k)" "startswith k (S3_PREFIX cfg @ ''/'')"
    by (auto simp: passes_checks_def Option.bind_eq_Some_conv split: option.splits json.splits)
  from obj obtain od where od: "obj = JObj od"
    using field_Some_obj by blast
  have g: "py_getitem r ''s3'' = Inr s3" "py_getitem s3 ''bucket'' = Inr b"
      "py_getitem b ''name'' = Inr (JStr (S3_BUCKET cfg))" "py_getitem s3 ''object'' = Inr obj"
      "py_getitem obj ''key'' = Inr (JStr k)"
    using r s3 obj by (simp_all add: py_getitem_Inr)
  show ?thesis
    unfolding check_record_def
    using src n obj(3) g by (simp add: r od del: py_getitem.simps)
qed

lemma check_record_Some_iff:
  "(\<exists>ev. check_record cfg message r = Inr (Some ev)) \<longleftrightarrow> passes_checks cfg r"
  using check_record_passes passes_check_record by blast

lemma parse_records_Some:
  "parse_records cfg message rs = Inr (Some ev) \<Longrightarrow>
     \<exists>i<length rs. check_record cfg message (rs ! i) = Inr (Some ev)
        \<and> (\<forall>j<i. check_record cfg message (rs ! j) = Inr None)"
proof (induction rs)
  case Nil
  then show ?case by simp
next
  case (Cons r rs)
  show ?case
  proof (cases "check_record cfg message r")
    case (Inl x)
    with Cons.prems show ?thesis by simp
  next
    case (Inr res)
    show ?thesis
    proof (cases res)
      case None
      with Inr Cons obtain i where i: "i < length rs"
          "check_record cfg message (rs ! i) = Inr (Some ev)"
          "\<forall>j<i. check_record cfg message (rs ! j) = Inr None"
        by auto
      have "\<forall>j<Suc i. check_record cfg message ((r # rs) ! j) = Inr None"
        using i(3) Inr None by (auto simp: less_Suc_eq_0_disj)
      with i(1,2) show ?thesis
        by (intro exI [of _ "Suc i"]) simp
    next
      case (Some ev')
      with Inr Cons.prems have "ev' = ev" by simp
      with Inr Some show ?thesis
        by (intro exI [of _ 0]) simp
    qed
  qed
qed

lemma parse_records_after_valid:
  "passes_checks cfg r \<Longrightarrow>
     parse_records cfg message (pre @ r # post) = parse_records cfg message (pre @ [r])"
proof (induction pre)
  case Nil
  then obtain ev where "check_record cfg message r = Inr (Some ev)"
    using passes_check_record by blast
  then show ?case by simp
next
  case (Cons a pre)
  then show ?case by (simp split: sum.splits option.splits)
qed

lemma parse_message_not_Inl: "parse_message cfg loads message \<noteq> Inl x"
  by (simp add: parse_message_def split: sum.splits)

lemma poll_loop_deleted: "snd (poll_loop cfg loads ms acc deleted) = deleted"
  by (induction ms arbitrary: acc) (auto simp: parse_message_not_Inl split: sum.splits option.splits)

lemma poll_loop_length:
  "length (fst (poll_loop cfg loads ms acc deleted)) \<le> length acc + length ms"
proof (induction ms arbitrary: acc deleted)
  case Nil
  then show ?case by simp
next
  case (Cons m ms)
  show ?case
  proof (cases "parse_message cfg loads m")
    case (Inl x)
    then show ?thesis by (simp add: parse_message_not_Inl)
  next
    case (Inr res)
    then show ?thesis
      using Cons [of acc deleted] Cons [of "acc @ [the res]" deleted]
      by (cases res) auto
  qed
qed

lemma poll_messages_never_deletes:
  "snd (poll_messages cfg loads response deleted) = deleted"
  by (cases response) (simp_all add: poll_messages_def poll_loop_deleted)

lemma poll_messages_length:
  "length (fst (poll_messages cfg loads (Received ms) deleted)) \<le> length ms"
  using poll_loop_length [of cfg loads ms "[]" deleted] by (simp add: poll_messages_def)

lemma parse_message_envelope:
  assumes "loads (Body message) = Some (JObj body)" and "map_of body ''Records'' = Some (JArr rs)"
  shows "parse_message cfg loads message =
           (case parse_records cfg message rs of Inl x \<Rightarrow> Inr None | Inr res \<Rightarrow> Inr res)"
proof -
  have "''Records'' \<in> set (map fst body)"
    using assms(2) by (metis map_of_eq_None_iff option.distinct(1) set_map)
  then show ?thesis
    using assms by (simp add: parse_message_def parse_message_body_def)
qed

lemma poll_one:
  "fst (poll_messages cfg loads (Received [message]) deleted) =
     (case parse_message cfg loads message of Inr (Some ev) \<Rightarrow> [ev] | _ \<Rightarrow> [])"
  by (simp add: poll_messages_def split: sum.splits option.splits)

lemma check_three_records:
  "check_record default_config msg1 record_a = Inr None"
  "check_record default_config msg1 record_b = Inr (Some second_event)"
  by (simp_all add: record_a_def record_b_def s3_record_def check_record_def default_config_def
        dict_get_def startswith_def msg1_def second_event_def)

lemma passes_three_records:
  "\<not> passes_checks default_config record_a"
  "passes_checks default_config record_b"
  "passes_checks default_config record_c"
  by (simp_all add: record_a_def record_b_def record_c_def s3_record_def passes_checks_def
        default_config_def dict_get_def startswith_def)

lemma check_record_event:
  assumes "check_record cfg message r = Inr (Some ev)"
  shows "bucket ev = JStr (S3_BUCKET cfg)"
    and "Option.bind (Option.bind (field r ''s3'') (\<lambda>s. field s ''object''))
           (\<lambda>obj. field obj ''key'') = Some (key ev)"
    and "receipt_handle ev = ReceiptHandle message"
    and "message_id ev = MessageId message"
  using assms
  unfolding check_record_def
  by (auto simp: bindE_eq_Inr py_get_Inr py_startswith_Inr py_getitem_Inr
        simp del: py_getitem.simps split: if_splits)

lemma check_record_skipped:
  "\<not> passes_checks cfg r \<Longrightarrow> \<not> isl (check_record cfg message r) \<Longrightarrow>
     check_record cfg message r = Inr None"
  using check_record_passes [of cfg message r]
  by (cases "check_record cfg message r") (auto intro: option.exhaust)

lemma parse_records_skip:
  "\<forall>x \<in> set pre. check_record cfg message x = Inr None \<Longrightarrow>
     parse_records cfg message (pre @ rest) = parse_records cfg message rest"
  by (induction pre) simp_all

lemma parse_records_raise:
  "isl (check_record cfg message r) \<Longrightarrow>
     parse_records cfg message (r # post) = check_record cfg message r"
  by (cases "check_record cfg message r") simp_all

text \<open>
  C9 as stated fails: the second record of this body passes all validation checks, but
  the record before it has the expected source and event name and no \<^verbatim>\<open>s3\<close> entry, so
  the parser raises there and the poll yields no event for the message.
\<close>

theorem poll_record_after_raise_counterexample:
  "passes_checks default_config record_b
   \<and> sample_loads (Body msg2) = Some (envelope [record_no_s3, record_b])
   \<and> check_record default_config msg2 record_no_s3 = Inl (KeyError ''s3'')
   \<and> fst (poll_messages default_config sample_loads (Received [msg2]) []) = []"
proof -
  have a: "check_record default_config msg2 record_no_s3 = Inl (KeyError ''s3'')"
    by (simp add: record_no_s3_def check_record_def default_config_def dict_get_def
          startswith_def)
  have b: "sample_loads (Body msg2) = Some (envelope [record_no_s3, record_b])"
    by (simp add: sample_loads_def msg2_def)
  have "parse_message default_config sample_loads msg2 = Inr None"
    using a b by (simp add: parse_message_def parse_message_body_def envelope_def)
  then show ?thesis
    using a b passes_three_records(2) by (simp add: poll_messages_def)
qed

text \<open>
  C9, amended: a message gives at most one event (a poll that received some messages
  returns no more events than messages), and for a body with a \<^verbatim>\<open>Records\<close> array it is
  what the loop over the records returns. If every record before the first one that
  passes all validation checks is skipped (it fails a check and does not make the parser
  raise), the event is that of the passing record: its bucket is the configured one,
  its key and receipt handle are the record's and the message's. Every later record is
  ignored, even if it would also pass. If instead a record raises before any record
  has passed, the parse of the message ends with that exception and no event. An event
  that is returned always comes from the first record that passes the checks.
\<close>

theorem poll_first_valid_record:
  "length (fst (poll_messages cfg loads (Received ms) deleted)) \<le> length ms
   \<and> (loads (Body message) = Some (JObj body) \<and> map_of body ''Records'' = Some (JArr rs)
        \<longrightarrow> fst (poll_messages cfg loads (Received [message]) deleted) =
              (case parse_records cfg message rs of Inr (Some ev) \<Rightarrow> [ev] | _ \<Rightarrow> []))
   \<and> ((\<forall>x \<in> set pre. \<not> passes_checks cfg x \<and> \<not> isl (check_record cfg message x))
        \<and> passes_checks cfg r
        \<longrightarrow> (\<exists>ev. parse_records cfg message (pre @ r # post) = Inr (Some ev)
                 \<and> check_record cfg message r = Inr (Some ev)
                 \<and> bucket ev = JStr (S3_BUCKET cfg)
                 \<and> Option.bind (Option.bind (field r ''s3'') (\<lambda>s. field s ''object''))
                      (\<lambda>obj. field obj ''key'') = Some (key ev)
                 \<and> receipt_handle ev = ReceiptHandle message))
   \<and> ((\<forall>x \<in> set pre. \<not> passes_checks cfg x \<and> \<not> isl (check_record cfg message x))
        \<and> isl (check_record cfg message r)
        \<longrightarrow> parse_records cfg message (pre @ r # post) = check_record cfg message r)
   \<and> (parse_records cfg message rs = Inr (Some ev)
        \<longrightarrow> (\<exists>i<length rs. passes_checks cfg (rs ! i)
                 \<and> (\<forall>j<i. \<not> passes_checks cfg (rs ! j))
                 \<and> check_record cfg message (rs ! i) = Inr (Some ev)))
   \<and> (passes_checks cfg r
        \<longrightarrow> parse_records cfg message (pre @ r # post) = parse_records cfg message (pre @ [r]))"
proof (intro conjI impI)
  show "length (fst (poll_messages cfg loads (Received ms) deleted)) \<le> length ms"
    by (rule poll_messages_length)
next
  assume "loads (Body message) = Some (JObj body) \<and> map_of body ''Records'' = Some (JArr rs)"
  then show "fst (poll_messages cfg loads (Received [message]) deleted) =
              (case parse_records cfg message rs of Inr (Some ev) \<Rightarrow> [ev] | _ \<Rightarrow> [])"
    by (simp add: poll_one parse_message_envelope split: sum.splits option.splits)
next
  assume h: "(\<forall>x \<in> set pre. \<not> passes_checks cfg x \<and> \<not> isl (check_record cfg message x))
        \<and> passes_checks cfg r"
  then have skip: "\<forall>x \<in> set pre. check_record cfg message x = Inr None"
    using check_record_skipped by blast
  from h obtain ev where ev: "check_record cfg message r = Inr (Some ev)"
    using passes_check_record by blast
  have "parse_records cfg message (pre @ r # post) = Inr (Some ev)"
    using skip ev by (simp add: parse_records_skip)
  with ev check_record_event [OF ev]
  show "\<exists>ev. parse_records cfg message (pre @ r # post) = Inr (Some ev)
                 \<and> check_record cfg message r = Inr (Some ev)
                 \<and> bucket ev = JStr (S3_BUCKET cfg)
                 \<and> Option.bind (Option.bind (field r ''s3'') (\<lambda>s. field s ''object''))
                      (\<lambda>obj. field obj ''key'') = Some (key ev)
                 \<and> receipt_handle ev = ReceiptHandle message"
    by blast
next
  assume h: "(\<forall>x \<in> set pre. \<not> passes_checks cfg x \<and> \<not> isl (check_record cfg message x))
        \<and> isl (check_record cfg message r)"
  then have skip: "\<forall>x \<in> set pre. check_record cfg message x = Inr None"
    using check_record_skipped by blast
  from h have "parse_records cfg message (r # post) = check_record cfg message r"
    by (intro parse_records_raise) simp
  moreover have "parse_records cfg message (pre @ r # post) = parse_records cfg message (r # post)"
    using skip by (rule parse_records_skip)
  ultimately show "parse_records cfg message (pre @ r # post) = check_record cfg message r"
    by (simp only:)
next
  assume "parse_records cfg message rs = Inr (Some ev)"
  then obtain i where i: "i < length rs" "check_record cfg message (rs ! i) = Inr (Some ev)"
      "\<forall>j<i. check_record cfg message (rs ! j) = Inr None"
    using parse_records_Some by blast
  have "\<forall>j<i. \<not> passes_checks cfg (rs ! j)"
  proof (intro allI impI notI)
    fix j assume "j < i" and "passes_checks cfg (rs ! j)"
    then show False
      using i(3) passes_check_record [of cfg "rs ! j" message] by auto
  qed
  with i(1,2) show "\<exists>i<length rs. passes_checks cfg (rs ! i)
                 \<and> (\<forall>j<i. \<not> passes_checks cfg (rs ! j))
                 \<and> check_record cfg message (rs ! i) = Inr (Some ev)"
    using check_record_passes by blast
next
  assume "passes_checks cfg r"
  then show "parse_records cfg message (pre @ r # post) = parse_records cfg message (pre @ [r])"
    by (rule parse_records_after_valid)
qed

theorem poll_first_valid_record_witness:
  "length (fst (poll_messages default_config sample_loads (Received [msg1]) [])) \<le> 1
   \<and> sample_loads (Body msg1) = Some (JObj [(''Records'', JArr three_records)])
   \<and> \<not> passes_checks default_config record_a
   \<and> \<not> isl (check_record default_config msg1 record_a)
   \<and> passes_checks default_config record_b
   \<and> passes_checks default_config record_c
   \<and> parse_records default_config msg1 three_records = Inr (Some second_event)
   \<and> fst (poll_messages default_config sample_loads (Received [msg1]) []) = [second_event]
   \<and> bucket second_event = JStr (S3_BUCKET default_config)
   \<and> key second_event = JStr ''uploads/u1/s1/b.mp4''
   \<and> parse_records default_config msg1 ([record_a] @ record_b # [record_c])
       = parse_records default_config msg1 ([record_a] @ [record_b])
   \<and> isl (check_record default_config msg2 record_no_s3)
   \<and> parse_records default_config msg2 ([] @ record_no_s3 # [record_b])
       = Inl (KeyError ''s3'')"
proof -
  have a: "sample_loads (Body msg1) = Some (JObj [(''Records'', JArr three_records)])"
    by (simp add: sample_loads_def msg1_def envelope_def)
  have b: "map_of [(''Records'', JArr three_records)] ''Records'' = Some (JArr three_records)"
    by simp
  have c: "\<forall>x \<in> set [record_a].
             \<not> passes_checks default_config x \<and> \<not> isl (check_record default_config msg1 x)"
    by (simp add: passes_three_records check_three_records)
  have d: "check_record default_config msg2 record_no_s3 = Inl (KeyError ''s3'')"
    by (simp add: record_no_s3_def check_record_def default_config_def dict_get_def
          startswith_def)
  have e: "\<forall>x \<in> set []. \<not> passes_checks default_config x
             \<and> \<not> isl (check_record default_config msg2 x)"
    by simp
  have f: "key second_event = JStr ''uploads/u1/s1/b.mp4''"
    by (simp add: second_event_def)
  have g: "three_records = [record_a] @ record_b # [record_c]"
    by (simp add: three_records_def)
  have prod: "parse_records default_config msg1 three_records = Inr (Some second_event)"
    using c passes_three_records(2) check_three_records(2) g
      poll_first_valid_record [where cfg = default_config and message = msg1
        and pre = "[record_a]" and r = record_b and post = "[record_c]"]
    by auto
  show ?thesis
    using a b c d e f g prod passes_three_records check_three_records
      poll_first_valid_record [where cfg = default_config and loads = sample_loads
        and ms = "[msg1]" and deleted = "[]" and message = msg1
        and body = "[(''Records'', JArr three_records)]" and rs = three_records
        and ev = second_event and r = record_b and pre = "[record_a]"
        and post = "[record_c]"]
      poll_first_valid_record [where cfg = default_config and message = msg2
        and pre = "[]" and r = record_no_s3 and post = "[record_b]"]
    by (simp add: second_event_def default_config_def)
qed

text \<open>
  C1, at five messages that each fail one validation step (a body that does not
  decode, a wrong source tag, a wrong event name, a wrong bucket, a key outside the
  prefix): the poll returns no event, and it deletes none of the five. The handler of
  \<^verbatim>\<open>poll_messages\<close> that deletes a malformed message is never reached, since
  \<^verbatim>\<open>_parse_message\<close> catches every exception itself.
\<close>

theorem poll_messages_invalid_not_deleted:
  "poll_messages default_config sample_loads (Received invalid_messages) [] = ([], [])"
proof -
  have "parse_message default_config sample_loads m = Inr None"
    if "m \<in> set invalid_messages" for m
    using that
    by (auto simp: invalid_messages_def parse_message_def parse_message_body_def sample_loads_def
          envelope_def s3_record_def check_record_def default_config_def dict_get_def
          startswith_def)
  then show ?thesis
    by (simp add: poll_messages_def invalid_messages_def)
qed

section \<open>Downloading\<close>

lemma makedirs_frame: "makedirs e w d = Some w1 \<Longrightarrow> \<exists>F. w1 = w\<lparr>files := F\<rparr>"
  by (auto simp: makedirs_def split: if_splits option.splits)

lemma transfer_file_frame: "\<exists>F. snd (transfer_file e w b k lf) = w\<lparr>files := F\<rparr>"
proof -
  have triv: "\<exists>F. w = w\<lparr>files := F\<rparr>" by (rule exI [of _ "files w"]) simp
  show ?thesis
  proof (cases "s3_download e b k")
    case (Transferred n)
    show ?thesis
    proof (cases "case files w (resolve_path e lf) of None \<Rightarrow> False | Some st \<Rightarrow> st_isdir st")
      case True
      with Transferred triv show ?thesis by (simp add: transfer_file_def)
    next
      case False
      with Transferred show ?thesis
        by (intro exI [of _ "(files w)(resolve_path e lf \<mapsto>
              \<lparr>st_isdir = False, st_size = n, st_mtime = utcnow e\<rparr>)"])
           (simp add: transfer_file_def verify_download_def)
    qed
  qed (use triv in \<open>auto simp: transfer_file_def verify_download_def\<close>)
qed

lemma download_file_frame: "\<exists>F. snd (download_file cfg e w b k lf) = w\<lparr>files := F\<rparr>"
proof -
  have triv: "\<exists>F. w = w\<lparr>files := F\<rparr>" by (rule exI [of _ "files w"]) simp
  show ?thesis
  proof (cases "destination cfg k lf")
    case None
    with triv show ?thesis by (simp add: download_file_def)
  next
    case (Some d)
    show ?thesis
    proof (cases "makedirs e w (dirname d)")
      case None
      with Some triv show ?thesis by (simp add: download_file_def)
    next
      case (Some w1)
      then obtain F where w1: "w1 = w\<lparr>files := F\<rparr>"
        using makedirs_frame by blast
      have t1: "\<exists>G. w1 = w\<lparr>files := G\<rparr>" using w1 by blast
      have t2: "\<exists>G. snd (transfer_file e w1 b' k' d) = w\<lparr>files := G\<rparr>" for b' k'
        using transfer_file_frame [of e w1 b' k' d] w1 by auto
      show ?thesis
        using \<open>destination cfg k lf = Some d\<close> Some t1 t2
        by (auto simp: download_file_def split: json.splits head_result.splits)
    qed
  qed
qed

lemma transfer_file_Some:
  "fst (transfer_file e w b k lf) = Some p \<Longrightarrow>
     p = lf \<and> path_exists e (snd (transfer_file e w b k lf)) p"
  by (auto simp: transfer_file_def verify_download_def
        split: transfer_result.splits if_splits)

lemma download_file_Some:
  assumes "fst (download_file cfg e w b k lf) = Some p"
  shows "destination cfg k lf = Some p"
    and "path_exists e (snd (download_file cfg e w b k lf)) p"
    and "\<exists>b' k'. b = JStr b' \<and> k = JStr k'"
  using assms
  by (auto simp: download_file_def dest!: transfer_file_Some
        split: option.splits json.splits head_result.splits if_splits)

lemma download_file_nothing:
  assumes "s3_download e b k = TransferredNothing"
    and "destination cfg (JStr k) lf = Some d"
    and "makedirs e w (dirname d) = Some w1"
    and "\<not> path_exists e w1 d"
  shows "download_file cfg e w (JStr b) (JStr k) lf = (None, w1)"
  using assms
  by (auto simp: download_file_def transfer_file_def verify_download_def
        split: head_result.splits)

lemma sample_download_paths:
  "join (DOWNLOAD_DIR default_config) (basename ''uploads/u1/s1/b.mp4'') = ''./temp_downloads/b.mp4''"
  "dirname ''./temp_downloads/b.mp4'' = ''./temp_downloads''"
  "join (DOWNLOAD_DIR default_config) (basename ''uploads/u1/s1/'') = ''./temp_downloads/''"
  "dirname ''./temp_downloads/'' = ''./temp_downloads''"
  by (simp_all add: default_config_def join_def basename_def dirname_def startswith_def
        rstrip_char_def)

lemma sample_ancestors: "ancestors ''./temp_downloads'' = [''.'']"
  by (simp add: ancestors_def dirname_def basename_def rstrip_char_def Let_def)

lemma sample_resolve:
  "resolve_path sample_env ''.'' = ''.''"
  "resolve_path sample_env ''./temp_downloads'' = ''./temp_downloads''"
  "resolve_path sample_env ''./temp_downloads/'' = ''./temp_downloads''"
  "resolve_path sample_env ''./temp_downloads/b.mp4'' = ''./temp_downloads/b.mp4''"
  by (simp_all add: sample_env_def rstrip_char_def)

lemma sample_makedirs:
  "makedirs sample_env empty_world ''./temp_downloads'' = Some downloads_dir_world"
  by (simp add: makedirs_def sample_ancestors mark_dir_def sample_resolve downloads_dir_world_def
        empty_world_def)
    (simp add: sample_env_def)

lemma mark_dirs_env:
  assumes "resolve_path e' = resolve_path e" and "dir_size e' = dir_size e"
    and "utcnow e' = utcnow e"
  shows "mark_dirs e' fs ps = mark_dirs e fs ps"
proof -
  have "mark_dir e' fs p = mark_dir e fs p" for fs p
    using assms by (simp add: mark_dir_def split: option.splits)
  then show ?thesis
    by (induction ps arbitrary: fs) (simp_all split: option.splits)
qed

lemma makedirs_env:
  assumes "resolve_path e' = resolve_path e" and "dir_size e' = dir_size e"
    and "utcnow e' = utcnow e"
  shows "makedirs e' w d = makedirs e w d"
  by (simp add: makedirs_def mark_dirs_env [OF assms] del: mark_dirs.simps)

lemma variant_fields:
  "resolve_path empty_file_env = resolve_path sample_env"
  "resolve_path no_file_env = resolve_path sample_env"
  "resolve_path not_found_env = resolve_path sample_env"
  "resolve_path denied_head_env = resolve_path sample_env"
  "utcnow empty_file_env = ''2024-01-01T00:00:00''"
  "utcnow sample_env = ''2024-01-01T00:00:00''"
  "utcnow denied_head_env = ''2024-01-01T00:00:00''"
  "s3_download empty_file_env b k = Transferred 0"
  "s3_download no_file_env b k = TransferredNothing"
  "s3_download sample_env b k = Transferred 5"
  "s3_download denied_head_env b k = Transferred 5"
  "head_object empty_file_env b k = HeadOk [(''ContentLength'', JInt 5), (''ETag'', JStr ''abc'')]"
  "head_object no_file_env b k = HeadOk [(''ContentLength'', JInt 5), (''ETag'', JStr ''abc'')]"
  "head_object sample_env b k = HeadOk [(''ContentLength'', JInt 5), (''ETag'', JStr ''abc'')]"
  "head_object not_found_env b k = HeadClientError ''NoSuchKey''"
  "head_object denied_head_env b k = HeadClientError ''AccessDenied''"
  by (simp_all add: empty_file_env_def no_file_env_def not_found_env_def denied_head_env_def
        sample_env_def)

lemma downloads_dir_files:
  "files downloads_dir_world ''./temp_downloads/b.mp4'' = None"
  "files downloads_dir_world ''./temp_downloads''
     = Some \<lparr>st_isdir = True, st_size = 4096, st_mtime = ''2024-01-01T00:00:00''\<rparr>"
  by (simp_all add: downloads_dir_world_def)

lemma variant_env:
  "dir_size empty_file_env = dir_size sample_env"
  "dir_size no_file_env = dir_size sample_env"
  "dir_size not_found_env = dir_size sample_env"
  "dir_size denied_head_env = dir_size sample_env"
  "utcnow empty_file_env = utcnow sample_env"
  "utcnow no_file_env = utcnow sample_env"
  "utcnow not_found_env = utcnow sample_env"
  "utcnow denied_head_env = utcnow sample_env"
  by (simp_all add: empty_file_env_def no_file_env_def not_found_env_def denied_head_env_def)

lemma sample_makedirs_variants:
  "makedirs empty_file_env empty_world ''./temp_downloads'' = Some downloads_dir_world"
  "makedirs no_file_env empty_world ''./temp_downloads'' = Some downloads_dir_world"
  "makedirs not_found_env empty_world ''./temp_downloads'' = Some downloads_dir_world"
  "makedirs denied_head_env empty_world ''./temp_downloads'' = Some downloads_dir_world"
proof -
  show "makedirs empty_file_env empty_world ''./temp_downloads'' = Some downloads_dir_world"
    using makedirs_env [OF variant_fields(1) variant_env(1) variant_env(5)] sample_makedirs
    by (simp only:)
  show "makedirs no_file_env empty_world ''./temp_downloads'' = Some downloads_dir_world"
    using makedirs_env [OF variant_fields(2) variant_env(2) variant_env(6)] sample_makedirs
    by (simp only:)
  show "makedirs not_found_env empty_world ''./temp_downloads'' = Some downloads_dir_world"
    using makedirs_env [OF variant_fields(3) variant_env(3) variant_env(7)] sample_makedirs
    by (simp only:)
  show "makedirs denied_head_env empty_world ''./temp_downloads'' = Some downloads_dir_world"
    using makedirs_env [OF variant_fields(4) variant_env(4) variant_env(8)] sample_makedirs
    by (simp only:)
qed

text \<open>
  C4 as stated fails: the check after the transfer is that the destination exists, and
  its size is only logged. Here the backend writes a regular file of no bytes and the
  download returns the path.
\<close>

theorem download_file_empty_counterexample:
  "fst (download_file default_config empty_file_env empty_world
          (JStr ''dancer-uploads'') (JStr ''uploads/u1/s1/b.mp4'') None)
     = Some ''./temp_downloads/b.mp4''
   \<and> files (snd (download_file default_config empty_file_env empty_world
                    (JStr ''dancer-uploads'') (JStr ''uploads/u1/s1/b.mp4'') None))
        (resolve_path empty_file_env ''./temp_downloads/b.mp4'')
       = Some \<lparr>st_isdir = False, st_size = 0, st_mtime = ''2024-01-01T00:00:00''\<rparr>"
  by (simp add: download_file_def destination_def sample_download_paths
        sample_makedirs sample_makedirs_variants transfer_file_def verify_download_def
        path_exists_def variant_fields sample_resolve downloads_dir_files)

text \<open>
  The destination can also be a directory: for a key that ends in a slash it is the
  download directory itself, which \<^verbatim>\<open>os.makedirs\<close> has just made, and a transfer that
  writes nothing is then reported as a success.
\<close>

lemma download_file_directory_destination:
  "fst (download_file default_config no_file_env empty_world
          (JStr ''dancer-uploads'') (JStr ''uploads/u1/s1/'') None)
     = Some ''./temp_downloads/''"
  by (simp add: download_file_def destination_def sample_download_paths
        sample_makedirs sample_makedirs_variants transfer_file_def verify_download_def
        path_exists_def variant_fields sample_resolve downloads_dir_files)

text \<open>
  C4, amended: a download returns a local path only if that path is the destination
  and, after the transfer, something exists there: a regular file of any size, or a
  directory. A transfer that the backend reports as successful and that leaves nothing
  at the destination (nothing exists there once the directory of the destination has
  been made) is reported as a failure.
\<close>

theorem download_file_verified:
  "(fst (download_file cfg e w b k lf) = Some p
      \<longrightarrow> destination cfg k lf = Some p
          \<and> path_exists e (snd (download_file cfg e w b k lf)) p)
   \<and> (s3_download e b' k' = TransferredNothing
        \<and> destination cfg (JStr k') lf = Some d
        \<and> makedirs e w (dirname d) = Some w1
        \<and> \<not> path_exists e w1 d
      \<longrightarrow> download_file cfg e w (JStr b') (JStr k') lf = (None, w1))"
proof (intro conjI impI; (elim conjE)?)
  assume h: "fst (download_file cfg e w b k lf) = Some p"
  show "destination cfg k lf = Some p"
    using h by (rule download_file_Some(1))
  show "path_exists e (snd (download_file cfg e w b k lf)) p"
    using h by (rule download_file_Some(2))
next
  assume "s3_download e b' k' = TransferredNothing" "destination cfg (JStr k') lf = Some d"
    "makedirs e w (dirname d) = Some w1" "\<not> path_exists e w1 d"
  then show "download_file cfg e w (JStr b') (JStr k') lf = (None, w1)"
    by (rule download_file_nothing)
qed

theorem download_file_verified_witness:
  "fst (download_file default_config sample_env empty_world
          (JStr ''dancer-uploads'') (JStr ''uploads/u1/s1/b.mp4'') None)
     = Some ''./temp_downloads/b.mp4''
   \<and> path_exists sample_env
        (snd (download_file default_config sample_env empty_world
                (JStr ''dancer-uploads'') (JStr ''uploads/u1/s1/b.mp4'') None))
        ''./temp_downloads/b.mp4''
   \<and> s3_download no_file_env ''dancer-uploads'' ''uploads/u1/s1/b.mp4'' = TransferredNothing
   \<and> destination default_config (JStr ''uploads/u1/s1/b.mp4'') None
       = Some ''./temp_downloads/b.mp4''
   \<and> makedirs no_file_env empty_world (dirname ''./temp_downloads/b.mp4'')
       = Some downloads_dir_world
   \<and> \<not> path_exists no_file_env downloads_dir_world ''./temp_downloads/b.mp4''
   \<and> download_file default_config no_file_env empty_world
        (JStr ''dancer-uploads'') (JStr ''uploads/u1/s1/b.mp4'') None
       = (None, downloads_dir_world)"
proof -
  have a: "fst (download_file default_config sample_env empty_world
                  (JStr ''dancer-uploads'') (JStr ''uploads/u1/s1/b.mp4'') None)
             = Some ''./temp_downloads/b.mp4''"
    by (simp add: download_file_def destination_def sample_download_paths
          sample_makedirs sample_makedirs_variants transfer_file_def verify_download_def
          path_exists_def variant_fields sample_resolve downloads_dir_files)
  have b: "s3_download no_file_env ''dancer-uploads'' ''uploads/u1/s1/b.mp4'' = TransferredNothing"
    by (simp add: no_file_env_def)
  have c: "destination default_config (JStr ''uploads/u1/s1/b.mp4'') None
             = Some ''./temp_downloads/b.mp4''"
    by (simp add: destination_def sample_download_paths)
  have d: "makedirs no_file_env empty_world (dirname ''./temp_downloads/b.mp4'')
             = Some downloads_dir_world"
    by (simp add: sample_download_paths sample_makedirs_variants)
  have f: "\<not> path_exists no_file_env downloads_dir_world ''./temp_downloads/b.mp4''"
    by (simp add: path_exists_def variant_fields sample_resolve downloads_dir_files)
  show ?thesis
    using a b c d f
      download_file_verified [where cfg = default_config and e = sample_env
        and w = empty_world and b = "JStr ''dancer-uploads''"
        and k = "JStr ''uploads/u1/s1/b.mp4''" and lf = None
        and p = "''./temp_downloads/b.mp4''"]
      download_file_verified [where cfg = default_config and e = no_file_env
        and w = empty_world and b' = "''dancer-uploads''"
        and k' = "''uploads/u1/s1/b.mp4''" and lf = None
        and d = "''./temp_downloads/b.mp4''" and ?w1.0 = downloads_dir_world]
    by simp
qed

section \<open>Extraction\<close>

lemma bindE_Inr_E:
  assumes "bindE m f = Inr y"
  obtains a where "m = Inr a" and "f a = Inr y"
  using assms by (cases m) auto

lemma probe_fails_Inl: "probe_fails e p \<Longrightarrow> \<exists>x. extract_with_ffprobe e p = Inl x"
  by (auto simp: probe_fails_def extract_with_ffprobe_def split: proc_result.splits sum.splits)

lemma build_probe_metadata_tag:
  assumes "build_probe_metadata e pd = Inr m"
  shows "py_getitem m ''extraction_method'' = Inr (JStr ''ffprobe'')"
  using assms
  unfolding build_probe_metadata_def
  apply (elim bindE_Inr_E)
  apply (simp only: Let_def)
  apply (simp split: list.splits json.splits)
  apply auto
  done

lemma extract_with_ffprobe_tag:
  "extract_with_ffprobe e p = Inr m \<Longrightarrow>
     py_getitem m ''extraction_method'' = Inr (JStr ''ffprobe'')"
  by (auto simp: extract_with_ffprobe_def build_probe_metadata_tag
        split: proc_result.splits if_splits option.splits sum.splits)

lemma basic_tag:
  "py_getitem (extract_basic_video_info p) ''extraction_method'' = Inr (JStr ''basic_analysis'')"
  by (simp add: extract_basic_video_info_def Let_def)

lemma basic_format:
  "py_getitem (extract_basic_video_info p) ''detected_format'' =
     Inr (JStr (case map_of format_table (lower (snd (splitext p))) of
                  None \<Rightarrow> ''Unknown'' | Some fi \<Rightarrow> fst fi))"
  by (simp add: extract_basic_video_info_def Let_def split: option.splits)

text \<open>
  C7: the video step never raises (its fallback raises nothing on a path that is a
  string). Whenever the probe path fails (the tool absent, a timeout of the
  availability check or of the extraction call, an exit code other than 0, output that
  does not decode, or any other exception of it) the result is the basic analysis of
  the path: tagged \<^verbatim>\<open>basic_analysis\<close>, its format read off the extension table. What
  the probe path returns is tagged \<^verbatim>\<open>ffprobe\<close>.
\<close>

theorem probe_fallback:
  "(\<exists>m. extract_video_metadata e p = Inr m)
   \<and> (probe_fails e p \<longrightarrow> (\<exists>x. extract_with_ffprobe e p = Inl x))
   \<and> (extract_with_ffprobe e p = Inl x \<longrightarrow>
        extract_video_metadata e p = Inr (extract_basic_video_info p))
   \<and> py_getitem (extract_basic_video_info p) ''extraction_method'' = Inr (JStr ''basic_analysis'')
   \<and> py_getitem (extract_basic_video_info p) ''detected_format'' =
        Inr (JStr (case map_of format_table (lower (snd (splitext p))) of
                     None \<Rightarrow> ''Unknown'' | Some fi \<Rightarrow> fst fi))
   \<and> (extract_with_ffprobe e p = Inr m \<longrightarrow>
        extract_video_metadata e p = Inr m
        \<and> py_getitem m ''extraction_method'' = Inr (JStr ''ffprobe''))"
  by (auto simp: extract_video_metadata_def probe_fails_Inl basic_tag basic_format
        extract_with_ffprobe_tag split: sum.splits)

lemma sample_probe_failure:
  "extract_with_ffprobe sample_env ''./temp_downloads/b.MP4'' =
     Inl (Exception (''ffprobe extraction failed: '' @ ffprobe_not_found))"
  by (simp add: extract_with_ffprobe_def sample_env_def wrap_failure_def)

lemma sample_probe_success:
  "extract_with_ffprobe probe_env ''./temp_downloads/b.MP4'' = Inr probe_result"
proof -
  have "py_round2 30 = of_int 3000 / 100"
    by (rule py_round2_nearest) simp_all
  then have fps: "parse_fps decimal_numeral (JStr ''30/1'') = Some 30"
    by (simp add: parse_fps_def decimal_numeral_def digit_of_def)
  show ?thesis
    by (simp add: extract_with_ffprobe_def probe_env_def sample_env_def
          build_probe_metadata_def dict_get_def py_float_def py_int_def
          decimal_numeral_def digit_of_def video_details_def fps opt_float_def
          probe_result_def)
qed

theorem probe_fallback_witness:
  "probe_fails sample_env ''./temp_downloads/b.MP4''
   \<and> extract_with_ffprobe sample_env ''./temp_downloads/b.MP4'' =
        Inl (Exception (''ffprobe extraction failed: '' @ ffprobe_not_found))
   \<and> extract_video_metadata sample_env ''./temp_downloads/b.MP4'' =
        Inr (extract_basic_video_info ''./temp_downloads/b.MP4'')
   \<and> py_getitem (extract_basic_video_info ''./temp_downloads/b.MP4'') ''detected_format'' =
        Inr (JStr ''MP4'')
   \<and> extract_with_ffprobe probe_env ''./temp_downloads/b.MP4'' = Inr probe_result
   \<and> extract_video_metadata probe_env ''./temp_downloads/b.MP4'' = Inr probe_result
   \<and> py_getitem probe_result ''extraction_method'' = Inr (JStr ''ffprobe'')"
proof -
  have a: "probe_fails sample_env ''./temp_downloads/b.MP4''"
    by (simp add: probe_fails_def sample_env_def)
  have ext: "lower (snd (splitext ''./temp_downloads/b.MP4'')) = ''.mp4''"
    by (simp add: splitext_def basename_def lower_def lower_char_def char_of_eq_iff)
  have fmt: "(case map_of format_table ''.mp4'' of None \<Rightarrow> ''Unknown'' | Some fi \<Rightarrow> fst fi) = ''MP4''"
    by (simp add: format_table_def)
  show ?thesis
    using a sample_probe_failure sample_probe_success ext fmt
      probe_fallback [where e = sample_env and p = "''./temp_downloads/b.MP4''"
        and x = "Exception (''ffprobe extraction failed: '' @ ffprobe_not_found)"]
      probe_fallback [where e = probe_env and p = "''./temp_downloads/b.MP4''"
        and m = probe_result]
    by simp
qed

lemma build_probe_metadata_shape:
  assumes "build_probe_metadata e pd = Inr m"
  shows "\<exists>fmt nv na dur br fs rest.
           m = JObj ([(''extraction_method'', JStr ''ffprobe''),
                      (''format'', fmt),
                      (''video_streams'', JInt nv),
                      (''audio_streams'', JInt na),
                      (''duration_seconds'', JFloat dur),
                      (''bitrate'', JInt br),
                      (''file_size'', JInt fs)] @ rest)
           \<and> (rest = [] \<or> (\<exists>pv. rest = [(''video_details'', video_details e pv)]))"
  using assms
  unfolding build_probe_metadata_def
  apply (elim bindE_Inr_E)
  apply (simp only: Let_def)
  apply (simp split: list.splits json.splits)
  apply auto
  done

lemma print_video_summary_probe:
  assumes "build_probe_metadata e pd = Inr m"
  shows "print_video_summary m = Inr ()"
proof -
  from assms obtain fmt nv na dur br fs rest
    where m: "m = JObj ([(''extraction_method'', JStr ''ffprobe''),
                      (''format'', fmt),
                      (''video_streams'', JInt nv),
                      (''audio_streams'', JInt na),
                      (''duration_seconds'', JFloat dur),
                      (''bitrate'', JInt br),
                      (''file_size'', JInt fs)] @ rest)"
      and rest: "rest = [] \<or> (\<exists>pv. rest = [(''video_details'', video_details e pv)])"
    using build_probe_metadata_shape by blast
  from rest show ?thesis
  proof
    assume "rest = []"
    with m show ?thesis
      by (simp add: print_video_summary_def if_in_def dict_get_def)
  next
    assume "\<exists>pv. rest = [(''video_details'', video_details e pv)]"
    with m show ?thesis
      by (auto simp: print_video_summary_def if_in_def video_details_def dict_get_def)
  qed
qed

lemma print_video_summary_basic: "print_video_summary (extract_basic_video_info p) = Inr ()"
  by (simp add: print_video_summary_def if_in_def extract_basic_video_info_def Let_def
        dict_get_def)

lemma print_video_summary_ok:
  assumes "extract_video_metadata e p = Inr video"
  shows "print_video_summary video = Inr ()"
proof (cases "extract_with_ffprobe e p")
  case (Inl x)
  with assms print_video_summary_basic [of p] show ?thesis
    by (auto simp: extract_video_metadata_def)
next
  case (Inr m)
  then obtain pd where "build_probe_metadata e pd = Inr m"
    by (auto simp: extract_with_ffprobe_def
          split: proc_result.splits if_splits option.splits sum.splits)
  then have "print_video_summary m = Inr ()"
    by (rule print_video_summary_probe)
  with Inr assms show ?thesis
    by (simp add: extract_video_metadata_def)
qed

lemma print_placeholder_summary_ok:
  "print_placeholder_summary
     (JObj [(''processing_info'', a), (''real_metadata'', b),
            (''placeholder_analysis'',
               JObj [(''note'', n), (''analysis_results'', run_placeholder_analysis),
                     (''warning'', wn)])]) = Inr ()"
  by (simp add: print_placeholder_summary_def if_in_def run_placeholder_analysis_def
        dict_get_def)

lemma get_file_info_obj: "\<exists>d. get_file_info e w p = JObj d"
  by (simp add: get_file_info_def split: option.splits)

lemma print_metadata_summary_built:
  assumes "print_video_summary video = Inr ()"
  shows "print_metadata_summary
           (JObj [(''processing_info'',
                     JObj [(''processing_timestamp'', t), (''processor_version'', v),
                           (''extraction_status'', st)]),
                  (''real_metadata'',
                     JObj [(''file_info'', get_file_info e w p), (''s3_info'', s3),
                           (''video_technical_metadata'', video)]),
                  (''placeholder_analysis'',
                     JObj [(''note'', n), (''analysis_results'', run_placeholder_analysis),
                           (''warning'', wn)])])
         = (case s3 of JObj d \<Rightarrow> Inr () | _ \<Rightarrow> Inl AttributeError)"
proof -
  obtain d where d: "get_file_info e w p = JObj d"
    using get_file_info_obj by blast
  show ?thesis
    unfolding print_metadata_summary_def
    using assms print_placeholder_summary_ok [of _ _ n wn]
    by (cases s3) (simp_all add: d dict_get_def)
qed

lemma extract_metadata_cases:
  "\<exists>video.
     extract_video_metadata e p = Inr video
     \<and> extract_metadata e w p s3 =
         (case s3 of
            JObj d \<Rightarrow>
              Inr (JObj
                [(''processing_info'',
                    JObj [(''processing_timestamp'', JStr (utcnow e)),
                          (''processor_version'', JStr ''1.0.0''),
                          (''extraction_status'', JStr ''completed'')]),
                 (''real_metadata'',
                    JObj [(''file_info'', get_file_info e w p),
                          (''s3_info'', s3),
                          (''video_technical_metadata'', video)]),
                 (''placeholder_analysis'',
                    JObj [(''note'',
                             JStr ''THIS IS PLACEHOLDER DATA - Replace with actual gait analysis''),
                          (''analysis_results'', run_placeholder_analysis),
                          (''warning'',
                             JStr ''These results are simulated for demonstration purposes only'')])])
          | _ \<Rightarrow> Inl AttributeError)"
proof -
  obtain video where v: "extract_video_metadata e p = Inr video"
    by (cases "extract_with_ffprobe e p") (simp_all add: extract_video_metadata_def)
  then have pv: "print_video_summary video = Inr ()"
    by (rule print_video_summary_ok)
  show ?thesis
    using v print_metadata_summary_built [OF pv]
    by (cases s3) (simp_all add: extract_metadata_def Let_def)
qed

text \<open>
  C6: the extractor produces a result for every path whenever the source-object
  attributes are a dictionary (otherwise printing the summary raises and there is no
  result). Every result is a dictionary of exactly three top-level keys,
  \<^verbatim>\<open>processing_info\<close>, \<^verbatim>\<open>real_metadata\<close> and \<^verbatim>\<open>placeholder_analysis\<close>. Under
  \<^verbatim>\<open>real_metadata\<close> are the measured data and nothing else: the file attributes, the
  source-object attributes as given and the technical metadata of the video step. Under
  \<^verbatim>\<open>placeholder_analysis\<close> are the simulated analysis results and nothing else but two
  markers, a note that says PLACEHOLDER and a warning that says simulated; the results
  name their own type \<^verbatim>\<open>placeholder_gait_analysis\<close>.
\<close>

theorem extract_metadata_namespaces:
  "(\<exists>md. extract_metadata e w p (JObj d) = Inr md)
   \<and> (extract_metadata e w p s3 = Inr md \<longrightarrow>
        (\<exists>video nt wn.
           extract_video_metadata e p = Inr video
           \<and> py_iter md = Inr [JStr ''processing_info'', JStr ''real_metadata'',
                                JStr ''placeholder_analysis'']
           \<and> py_getitem md ''real_metadata'' =
                 Inr (JObj [(''file_info'', get_file_info e w p),
                            (''s3_info'', s3),
                            (''video_technical_metadata'', video)])
           \<and> py_getitem md ''placeholder_analysis'' =
                 Inr (JObj [(''note'', JStr nt),
                            (''analysis_results'', run_placeholder_analysis),
                            (''warning'', JStr wn)])
           \<and> is_substring ''PLACEHOLDER'' nt
           \<and> is_substring ''simulated'' wn
           \<and> py_getitem run_placeholder_analysis ''analysis_type''
                 = Inr (JStr ''placeholder_gait_analysis'')))"
proof (intro conjI impI)
  show "\<exists>md. extract_metadata e w p (JObj d) = Inr md"
    using extract_metadata_cases [of e p w "JObj d"] by auto
next
  assume h: "extract_metadata e w p s3 = Inr md"
  obtain video where v: "extract_video_metadata e p = Inr video"
    and c: "extract_metadata e w p s3 =
         (case s3 of
            JObj d \<Rightarrow>
              Inr (JObj
                [(''processing_info'',
                    JObj [(''processing_timestamp'', JStr (utcnow e)),
                          (''processor_version'', JStr ''1.0.0''),
                          (''extraction_status'', JStr ''completed'')]),
                 (''real_metadata'',
                    JObj [(''file_info'', get_file_info e w p),
                          (''s3_info'', s3),
                          (''video_technical_metadata'', video)]),
                 (''placeholder_analysis'',
                    JObj [(''note'',
                             JStr ''THIS IS PLACEHOLDER DATA - Replace with actual gait analysis''),
                          (''analysis_results'', run_placeholder_analysis),
                          (''warning'',
                             JStr ''These results are simulated for demonstration purposes only'')])])
          | _ \<Rightarrow> Inl AttributeError)"
    using extract_metadata_cases by blast
  from h c have md: "md = JObj
                [(''processing_info'',
                    JObj [(''processing_timestamp'', JStr (utcnow e)),
                          (''processor_version'', JStr ''1.0.0''),
                          (''extraction_status'', JStr ''completed'')]),
                 (''real_metadata'',
                    JObj [(''file_info'', get_file_info e w p),
                          (''s3_info'', s3),
                          (''video_technical_metadata'', video)]),
                 (''placeholder_analysis'',
                    JObj [(''note'',
                             JStr ''THIS IS PLACEHOLDER DATA - Replace with actual gait analysis''),
                          (''analysis_results'', run_placeholder_analysis),
                          (''warning'',
                             JStr ''These results are simulated for demonstration purposes only'')])]"
    by (cases s3) simp_all
  have m: "is_substring ''PLACEHOLDER''
             ''THIS IS PLACEHOLDER DATA - Replace with actual gait analysis''"
      "is_substring ''simulated''
             ''These results are simulated for demonstration purposes only''"
      "py_getitem run_placeholder_analysis ''analysis_type''
         = Inr (JStr ''placeholder_gait_analysis'')"
    by (simp_all add: startswith_def run_placeholder_analysis_def)
  show "\<exists>video nt wn.
           extract_video_metadata e p = Inr video
           \<and> py_iter md = Inr [JStr ''processing_info'', JStr ''real_metadata'',
                                JStr ''placeholder_analysis'']
           \<and> py_getitem md ''real_metadata'' =
                 Inr (JObj [(''file_info'', get_file_info e w p),
                            (''s3_info'', s3),
                            (''video_technical_metadata'', video)])
           \<and> py_getitem md ''placeholder_analysis'' =
                 Inr (JObj [(''note'', JStr nt),
                            (''analysis_results'', run_placeholder_analysis),
                            (''warning'', JStr wn)])
           \<and> is_substring ''PLACEHOLDER'' nt
           \<and> is_substring ''simulated'' wn
           \<and> py_getitem run_placeholder_analysis ''analysis_type''
                 = Inr (JStr ''placeholder_gait_analysis'')"
    using v m
    by (intro exI [of _ video]
          exI [of _ "''THIS IS PLACEHOLDER DATA - Replace with actual gait analysis''"]
          exI [of _ "''These results are simulated for demonstration purposes only''"])
       (simp add: md)
qed

lemma extract_metadata_not_dict:
  "extract_metadata sample_env empty_world ''./temp_downloads/b.MP4'' JNull = Inl AttributeError"
  using extract_metadata_cases [of sample_env "''./temp_downloads/b.MP4''" empty_world JNull]
  by auto

theorem extract_metadata_namespaces_witness:
  "\<exists>md. extract_metadata sample_env empty_world ''./temp_downloads/b.MP4'' (JObj []) = Inr md
      \<and> py_iter md = Inr [JStr ''processing_info'', JStr ''real_metadata'',
                           JStr ''placeholder_analysis'']
      \<and> py_getitem md ''real_metadata'' =
            Inr (JObj [(''file_info'',
                          get_file_info sample_env empty_world ''./temp_downloads/b.MP4''),
                       (''s3_info'', JObj []),
                       (''video_technical_metadata'',
                          extract_basic_video_info ''./temp_downloads/b.MP4'')])"
proof -
  obtain md where md:
      "extract_metadata sample_env empty_world ''./temp_downloads/b.MP4'' (JObj []) = Inr md"
    using extract_metadata_namespaces [of sample_env empty_world "''./temp_downloads/b.MP4''" "[]"]
    by blast
  have v: "extract_video_metadata sample_env ''./temp_downloads/b.MP4''
             = Inr (extract_basic_video_info ''./temp_downloads/b.MP4'')"
    using sample_probe_failure by (simp add: extract_video_metadata_def)
  show ?thesis
    using md v
      extract_metadata_namespaces [where e = sample_env and w = empty_world
        and p = "''./temp_downloads/b.MP4''" and ?s3.0 = "JObj []" and md = md]
    by auto
qed

section \<open>Handling one event\<close>

lemma fold_max_ge: "a \<le> fold max xs (a::nat)"
  by (induction xs arbitrary: a) (auto intro: order_trans [OF max.cobounded2])

lemma fold_max_mem: "x \<in> set xs \<Longrightarrow> x \<le> fold max xs (a::nat)"
proof (induction xs arbitrary: a)
  case Nil
  then show ?case by simp
next
  case (Cons y ys)
  show ?case
  proof (cases "x = y")
    case True
    have "y \<le> max y a" by simp
    also have "\<dots> \<le> fold max ys (max y a)" by (rule fold_max_ge)
    finally show ?thesis using True by simp
  next
    case False
    with Cons show ?thesis by simp
  qed
qed

lemma next_id_fresh: "r \<in> set rs \<Longrightarrow> rec_id r \<noteq> next_id rs"
  using fold_max_mem [of "rec_id r" "map rec_id rs" 0] by (auto simp: next_id_def)

lemma next_id_pos: "next_id rs \<noteq> 0"
  by (simp add: next_id_def)

lemma update_first_last:
  "\<forall>x \<in> set xs. \<not> P x \<Longrightarrow> P y \<Longrightarrow> update_first P f (xs @ [y]) = xs @ [f y]"
  by (induction xs) auto

lemma find_last:
  "\<forall>x \<in> set xs. \<not> P x \<Longrightarrow> P y \<Longrightarrow> List.find P (xs @ [y]) = Some y"
  by (induction xs) auto

lemma makedirs_records:
  "makedirs e (w\<lparr>records := R\<rparr>) d = map_option (\<lambda>w1. w1\<lparr>records := R\<rparr>) (makedirs e w d)"
  by (simp add: makedirs_def split: option.splits)

lemma transfer_file_records:
  "transfer_file e (w\<lparr>records := R\<rparr>) b k lf =
     (fst (transfer_file e w b k lf), (snd (transfer_file e w b k lf))\<lparr>records := R\<rparr>)"
  by (simp add: transfer_file_def verify_download_def path_exists_def
        split: transfer_result.splits option.splits)

lemma download_file_records:
  "download_file cfg e (w\<lparr>records := R\<rparr>) b k lf =
     (fst (download_file cfg e w b k lf), (snd (download_file cfg e w b k lf))\<lparr>records := R\<rparr>)"
proof (cases "destination cfg k lf")
  case None
  then show ?thesis by (simp add: download_file_def)
next
  case (Some d)
  show ?thesis
  proof (cases "makedirs e w (dirname d)")
    case None
    with Some show ?thesis by (simp add: download_file_def makedirs_records)
  next
    case (Some w1)
    with \<open>destination cfg k lf = Some d\<close> show ?thesis
      by (simp add: download_file_def makedirs_records transfer_file_records
            split: json.splits head_result.splits)
  qed
qed

lemma download_file_records_cong:
  "fst (download_file cfg e (w\<lparr>records := R\<rparr>) b k lf) = fst (download_file cfg e w b k lf)"
  by (simp add: download_file_records)

lemma dirname_Nil: "dirname [] = []"
  by (simp add: dirname_def)

lemma download_file_nonempty: "fst (download_file cfg e w b k lf) = Some p \<Longrightarrow> p \<noteq> []"
proof
  assume a: "fst (download_file cfg e w b k lf) = Some p" and "p = []"
  then have "destination cfg k lf = Some []"
    using download_file_Some(1) by blast
  then have "fst (download_file cfg e w b k lf) = None"
    by (simp add: download_file_def dirname_Nil makedirs_def)
  with a show False by simp
qed

lemma extract_metadata_Inr:
  "\<exists>md real. extract_metadata e w p (JObj d) = Inr md \<and> truthy md
      \<and> py_getitem md ''real_metadata'' = Inr real
      \<and> py_getitem real ''s3_info'' = Inr (JObj d)"
  using extract_metadata_cases [of e p w "JObj d"] by auto

lemma s3_arg_obj:
  "\<exists>d. (case get_file_metadata e b k of
           None \<Rightarrow> JObj []
         | Some m \<Rightarrow> if truthy m then m else JObj []) = JObj d"
  by (auto simp: get_file_metadata_def
        split: option.splits json.splits head_result.splits)

lemma download_file_fields [simp]:
  "records (snd (download_file cfg e w b k lf)) = records w"
  "sqs_deleted (snd (download_file cfg e w b k lf)) = sqs_deleted w"
  "polls (snd (download_file cfg e w b k lf)) = polls w"
  "running (snd (download_file cfg e w b k lf)) = running w"
  "messages_processed (snd (download_file cfg e w b k lf)) = messages_processed w"
  "processing_errors (snd (download_file cfg e w b k lf)) = processing_errors w"
  using download_file_frame [of cfg e w b k lf] by auto

lemma update_if_tracked_fields [simp]:
  "sqs_deleted (update_if_tracked e w rid st md em) = sqs_deleted w"
  "files (update_if_tracked e w rid st md em) = files w"
  "polls (update_if_tracked e w rid st md em) = polls w"
  "running (update_if_tracked e w rid st md em) = running w"
  "messages_processed (update_if_tracked e w rid st md em) = messages_processed w"
  "processing_errors (update_if_tracked e w rid st md em) = processing_errors w"
  by (simp_all add: update_if_tracked_def update_processing_status_def split: option.splits)

lemma update_if_tracked_records:
  "records (update_if_tracked e w rid st md em) =
     (case rid of
        None \<Rightarrow> records w
      | Some n \<Rightarrow>
          if n \<noteq> 0 \<and> db_up e
          then update_first (\<lambda>r. rec_id r = n) (apply_status e st md em) (records w)
          else records w)"
  by (simp add: update_if_tracked_def update_processing_status_def split: option.splits)

lemma cleanup_file_fields [simp]:
  "records (snd (cleanup_file e w p)) = records w"
  "sqs_deleted (snd (cleanup_file e w p)) = sqs_deleted w"
  "polls (snd (cleanup_file e w p)) = polls w"
  "running (snd (cleanup_file e w p)) = running w"
  "messages_processed (snd (cleanup_file e w p)) = messages_processed w"
  "processing_errors (snd (cleanup_file e w p)) = processing_errors w"
  by (simp_all add: cleanup_file_def split: option.splits)

lemma create_processing_record_fields [simp]:
  "sqs_deleted (snd (create_processing_record e w b k u)) = sqs_deleted w"
  "files (snd (create_processing_record e w b k u)) = files w"
  "polls (snd (create_processing_record e w b k u)) = polls w"
  "running (snd (create_processing_record e w b k u)) = running w"
  "messages_processed (snd (create_processing_record e w b k u)) = messages_processed w"
  "processing_errors (snd (create_processing_record e w b k u)) = processing_errors w"
  by (simp_all add: create_processing_record_def Let_def)

lemma create_processing_record_up:
  "db_up e \<Longrightarrow> storable e b \<Longrightarrow> storable e k \<Longrightarrow>
     fst (create_processing_record e w b k None) = Some (next_id (records w))
     \<and> records (snd (create_processing_record e w b k None)) =
         records w @
           [\<lparr>rec_id = next_id (records w),
             upload_id = extract_upload_id_from_key k,
             s3_bucket = b, s3_key = k,
             processing_status = ''processing'',
             processing_started = Some (utcnow e),
             processing_completed = None,
             metadata_json = None,
             error_message = None,
             retry_count = 0\<rparr>]"
  by (simp add: create_processing_record_def Let_def)

lemma create_processing_record_down:
  "\<not> db_up e \<Longrightarrow> create_processing_record e w b k u = (None, w)"
  by (simp add: create_processing_record_def)

lemma create_processing_record_Some:
  "fst (create_processing_record e w b k u) = Some rid \<Longrightarrow>
     db_up e \<and> storable e b \<and> storable e k"
  by (auto simp: create_processing_record_def Let_def split: if_splits)

lemma storable_JStr [simp]: "storable e (JStr s)"
  by (simp add: storable_def)

lemma download_file_result:
  obtains r w' where "download_file cfg e w b k lf = (r, w')"
    and "records w' = records w" and "sqs_deleted w' = sqs_deleted w"
    and "polls w' = polls w" and "running w' = running w"
    and "messages_processed w' = messages_processed w"
    and "processing_errors w' = processing_errors w"
    and "r = fst (download_file cfg e w b k lf)"
proof (cases "download_file cfg e w b k lf")
  case (Pair r w')
  then have "snd (download_file cfg e w b k lf) = w'" by simp
  then have "records w' = records w" "sqs_deleted w' = sqs_deleted w"
      "polls w' = polls w" "running w' = running w"
      "messages_processed w' = messages_processed w"
      "processing_errors w' = processing_errors w"
    using download_file_fields [of cfg e w b k lf] by simp_all
  with Pair that show ?thesis by simp
qed

lemma process_steps_Inl:
  assumes "process_steps cfg e w m rid = (Inl x, w1)"
  shows "x = Exception ''Failed to download file from S3''
         \<and> records w1 = records w \<and> sqs_deleted w1 = sqs_deleted w
         \<and> polls w1 = polls w \<and> running w1 = running w
         \<and> messages_processed w1 = messages_processed w
         \<and> processing_errors w1 = processing_errors w"
proof -
  obtain r w' where d: "download_file cfg e w (bucket m) (key m) None = (r, w')"
    and fr: "records w' = records w" "sqs_deleted w' = sqs_deleted w"
      "polls w' = polls w" "running w' = running w"
      "messages_processed w' = messages_processed w"
      "processing_errors w' = processing_errors w"
    and r: "r = fst (download_file cfg e w (bucket m) (key m) None)"
    by (rule download_file_result)
  show ?thesis
  proof (cases r)
    case None
    with assms d fr show ?thesis
      by (auto simp: process_steps_def)
  next
    case (Some p)
    then have p: "p \<noteq> []" using r download_file_nonempty by metis
    obtain md where "extract_metadata e (w'\<lparr>files_downloaded := files_downloaded w' + 1\<rparr>)
        p (case get_file_metadata e (bucket m) (key m) of
             None \<Rightarrow> JObj [] | Some m' \<Rightarrow> if truthy m' then m' else JObj []) = Inr md"
      using extract_metadata_Inr s3_arg_obj [of e "bucket m" "key m"] by metis
    with assms d Some p show ?thesis
      by (simp add: process_steps_def Let_def)
  qed
qed

lemma process_steps_ok:
  assumes "fst (download_file cfg e w (bucket m) (key m) None) = Some p"
    and "get_file_metadata e (bucket m) (key m) = None"
  shows "\<exists>md real w1.
           process_steps cfg e w m rid = (Inr (), w1)
           \<and> records w1 = records (update_if_tracked e w rid ''completed'' (Some md) None)
           \<and> truthy md
           \<and> py_getitem md ''real_metadata'' = Inr real
           \<and> py_getitem real ''s3_info'' = Inr (JObj [])
           \<and> sqs_deleted w1 = sqs_deleted w @ [receipt_handle m]
           \<and> polls w1 = polls w \<and> running w1 = running w
           \<and> messages_processed w1 = messages_processed w
           \<and> processing_errors w1 = processing_errors w"
proof -
  obtain r w' where d: "download_file cfg e w (bucket m) (key m) None = (r, w')"
    and fr: "records w' = records w" "sqs_deleted w' = sqs_deleted w"
      "polls w' = polls w" "running w' = running w"
      "messages_processed w' = messages_processed w"
      "processing_errors w' = processing_errors w"
    and r: "r = fst (download_file cfg e w (bucket m) (key m) None)"
    by (rule download_file_result)
  from r assms(1) have rp: "r = Some p" by simp
  have p: "p \<noteq> []" using assms(1) by (rule download_file_nonempty)
  obtain md real where md:
      "extract_metadata e (w'\<lparr>files_downloaded := files_downloaded w' + 1\<rparr>) p (JObj []) = Inr md"
      "truthy md" "py_getitem md ''real_metadata'' = Inr real"
      "py_getitem real ''s3_info'' = Inr (JObj [])"
    using extract_metadata_Inr by blast
  have "process_steps cfg e w m rid =
          (Inr (),
           (let w3 = update_if_tracked e (w'\<lparr>files_downloaded := files_downloaded w' + 1\<rparr>)
                       rid ''completed'' (Some md) None;
                w4 = (if CLEANUP_AFTER_PROCESSING cfg then snd (cleanup_file e w3 p) else w3)
            in w4\<lparr>sqs_deleted := delete_message (sqs_deleted w4) (Inl m)\<rparr>))"
    using d rp p md(1) assms(2) by (simp add: process_steps_def Let_def)
  moreover have "records (update_if_tracked e (w'\<lparr>files_downloaded := files_downloaded w' + 1\<rparr>)
                       rid ''completed'' (Some md) None)
                 = records (update_if_tracked e w rid ''completed'' (Some md) None)"
    using fr(1) by (simp add: update_if_tracked_records split: option.splits)
  ultimately show ?thesis
    using md(2-4) fr
    by (intro exI [of _ md] exI [of _ real]) (simp add: Let_def delete_message_def)
qed

lemma process_message_Inl:
  assumes "fst (process_message cfg e w m) = Inl x"
  shows "x = Exception ''Failed to download file from S3''"
    and "sqs_deleted (snd (process_message cfg e w m)) = sqs_deleted w"
    and "processing_errors (snd (process_message cfg e w m)) = processing_errors w"
    and "records (snd (process_message cfg e w m)) =
           records (update_if_tracked e (snd (create_processing_record e w (bucket m) (key m) None))
                      (fst (create_processing_record e w (bucket m) (key m) None))
                      ''failed'' None (Some (str_exn x)))"
proof -
  obtain rid w0 where c: "create_processing_record e w (bucket m) (key m) None = (rid, w0)"
    by (cases "create_processing_record e w (bucket m) (key m) None")
  then have w0: "sqs_deleted w0 = sqs_deleted w" "processing_errors w0 = processing_errors w"
    using create_processing_record_fields [of e w "bucket m" "key m" None] by simp_all
  obtain res w1 where s: "process_steps cfg e w0 m rid = (res, w1)"
    by (cases "process_steps cfg e w0 m rid")
  from assms c s have res: "res = Inl x"
    by (simp add: process_message_def split: sum.splits)
  from s res have st: "x = Exception ''Failed to download file from S3''"
      "records w1 = records w0" "sqs_deleted w1 = sqs_deleted w0"
      "processing_errors w1 = processing_errors w0"
    using process_steps_Inl [of cfg e w0 m rid x w1] by simp_all
  show "x = Exception ''Failed to download file from S3''" by (rule st(1))
  have pm: "snd (process_message cfg e w m) =
              update_if_tracked e w1 rid ''failed'' None (Some (str_exn x))"
    using c s res by (simp add: process_message_def)
  show "sqs_deleted (snd (process_message cfg e w m)) = sqs_deleted w"
    using pm st w0 by simp
  show "processing_errors (snd (process_message cfg e w m)) = processing_errors w"
    using pm st w0 by simp
  show "records (snd (process_message cfg e w m)) =
           records (update_if_tracked e (snd (create_processing_record e w (bucket m) (key m) None))
                      (fst (create_processing_record e w (bucket m) (key m) None))
                      ''failed'' None (Some (str_exn x)))"
    using pm st(2) c by (simp add: update_if_tracked_records split: option.splits)
qed

lemma handle_message_Inl:
  assumes "fst (process_message cfg e w m) = Inl x"
  shows "sqs_deleted (handle_message cfg e w m) = sqs_deleted w @ [receipt_handle m]"
    and "records (handle_message cfg e w m) = records (snd (process_message cfg e w m))"
    and "processing_errors (handle_message cfg e w m) = processing_errors w + 1"
proof -
  obtain w1 where p: "process_message cfg e w m = (Inl x, w1)"
    using assms by (cases "process_message cfg e w m") simp
  then have "snd (process_message cfg e w m) = w1" by simp
  then have "sqs_deleted w1 = sqs_deleted w" "processing_errors w1 = processing_errors w"
    using process_message_Inl(2,3) [OF assms] by simp_all
  with p show "sqs_deleted (handle_message cfg e w m) = sqs_deleted w @ [receipt_handle m]"
    and "records (handle_message cfg e w m) = records (snd (process_message cfg e w m))"
    and "processing_errors (handle_message cfg e w m) = processing_errors w + 1"
    by (simp_all add: handle_message_def delete_message_def Let_def)
qed

lemma create_processing_record_None:
  "fst (create_processing_record e w b k u) = None \<Longrightarrow> snd (create_processing_record e w b k u) = w"
  by (auto simp: create_processing_record_def Let_def split: if_splits)

text \<open>
  C2: when the handling of an event fails, the exception carries a message that is not
  empty and the message is deleted from the queue all the same (its receipt handle is
  the one deletion the handling adds). If a processing record was created for the
  attempt (status \<^verbatim>\<open>processing\<close>, \<open>retry_count = 0\<close>), that record ends with status
  \<^verbatim>\<open>failed\<close>, the exception's text as its error message and \<open>retry_count = 1\<close>, and no
  other record changes. If none was created (the store is out of service, or it cannot
  bind the bucket or the key, as with a key that is a list), the table is left as it
  was. A record is created whenever the store is in service and bucket and key are
  strings, as they are in every event that comes from a \<^verbatim>\<open>Records\<close> envelope.
\<close>

theorem failed_event_marked_and_acknowledged:
  "fst (process_message cfg e w message) = Inl x \<longrightarrow>
     str_exn x \<noteq> []
     \<and> sqs_deleted (handle_message cfg e w message) = sqs_deleted w @ [receipt_handle message]
     \<and> (fst (create_processing_record e w (bucket message) (key message) None) = Some rid
          \<longrightarrow> (\<exists>r0 r.
                 rec_id r0 = rid \<and> rec_id r = rid
                 \<and> records (snd (create_processing_record e w (bucket message) (key message)
                                   None)) = records w @ [r0]
                 \<and> List.find (\<lambda>r. rec_id r = rid) (records w @ [r0]) = Some r0
                 \<and> processing_status r0 = ''processing'' \<and> retry_count r0 = 0
                 \<and> records (handle_message cfg e w message) = records w @ [r]
                 \<and> List.find (\<lambda>r. rec_id r = rid) (records w @ [r]) = Some r
                 \<and> processing_status r = ''failed''
                 \<and> error_message r = Some (str_exn x)
                 \<and> retry_count r = 1))
     \<and> (fst (create_processing_record e w (bucket message) (key message) None) = None
          \<longrightarrow> records (handle_message cfg e w message) = records w)
     \<and> (db_up e \<and> bucket message = JStr b \<and> key message = JStr k
          \<longrightarrow> fst (create_processing_record e w (bucket message) (key message) None)
                = Some (next_id (records w)))"
proof (intro impI conjI)
  assume f: "fst (process_message cfg e w message) = Inl x"
  then have x: "x = Exception ''Failed to download file from S3''"
    by (rule process_message_Inl(1))
  then show "str_exn x \<noteq> []" by simp
  show "sqs_deleted (handle_message cfg e w message) = sqs_deleted w @ [receipt_handle message]"
    using f by (rule handle_message_Inl(1))
  {
    assume n: "fst (create_processing_record e w (bucket message) (key message) None) = None"
    then have "snd (create_processing_record e w (bucket message) (key message) None) = w"
      by (rule create_processing_record_None)
    then show "records (handle_message cfg e w message) = records w"
      using handle_message_Inl(2) [OF f] process_message_Inl(4) [OF f] n
      by (simp add: update_if_tracked_records)
  }
  {
    assume "db_up e \<and> bucket message = JStr b \<and> key message = JStr k"
    then show "fst (create_processing_record e w (bucket message) (key message) None)
                = Some (next_id (records w))"
      using create_processing_record_up [of e "bucket message" "key message" w] by simp
  }
  assume cr: "fst (create_processing_record e w (bucket message) (key message) None) = Some rid"
  then have up: "db_up e" and sb: "storable e (bucket message)" and sk: "storable e (key message)"
    using create_processing_record_Some by blast+
  define r0 where "r0 =
     \<lparr>rec_id = next_id (records w), upload_id = extract_upload_id_from_key (key message),
      s3_bucket = bucket message, s3_key = key message,
      processing_status = ''processing'', processing_started = Some (utcnow e),
      processing_completed = None, metadata_json = None, error_message = None,
      retry_count = 0\<rparr>"
  have c: "fst (create_processing_record e w (bucket message) (key message) None)
             = Some (next_id (records w))"
      "records (snd (create_processing_record e w (bucket message) (key message) None))
         = records w @ [r0]"
    using create_processing_record_up [OF up sb sk, of w]
    by (simp_all add: r0_def)
  from c(1) cr have rid: "rid = next_id (records w)" by simp
  have fresh: "\<forall>r \<in> set (records w). \<not> rec_id r = rid"
    using next_id_fresh by (auto simp: rid)
  have id0: "rec_id r0 = rid" by (simp add: r0_def rid)
  have pos: "rid \<noteq> 0" by (simp add: rid next_id_pos)
  define r where "r = apply_status e ''failed'' None (Some (str_exn x)) r0"
  have "records (handle_message cfg e w message) =
          update_first (\<lambda>r. rec_id r = rid) (apply_status e ''failed'' None (Some (str_exn x)))
            (records w @ [r0])"
    using handle_message_Inl(2) [OF f] process_message_Inl(4) [OF f] c cr up pos
    by (simp add: update_if_tracked_records)
  also have "\<dots> = records w @ [r]"
    using fresh id0 by (simp add: update_first_last r_def)
  finally have recs: "records (handle_message cfg e w message) = records w @ [r]" .
  have idr: "rec_id r = rid" by (simp add: r_def r0_def rid apply_status_def Let_def)
  have "List.find (\<lambda>r. rec_id r = rid) (records w @ [r0]) = Some r0"
    using fresh id0 by (simp add: find_last)
  moreover have "List.find (\<lambda>r. rec_id r = rid) (records w @ [r]) = Some r"
    using fresh idr by (simp add: find_last)
  moreover have "processing_status r = ''failed''" "error_message r = Some (str_exn x)"
      "retry_count r = 1"
    using x by (simp_all add: r_def r0_def apply_status_def Let_def)
  moreover have "processing_status r0 = ''processing''" "retry_count r0 = 0"
    by (simp_all add: r0_def)
  ultimately show "\<exists>r0 r.
                 rec_id r0 = rid \<and> rec_id r = rid
                 \<and> records (snd (create_processing_record e w (bucket message) (key message)
                                   None)) = records w @ [r0]
                 \<and> List.find (\<lambda>r. rec_id r = rid) (records w @ [r0]) = Some r0
                 \<and> processing_status r0 = ''processing'' \<and> retry_count r0 = 0
                 \<and> records (handle_message cfg e w message) = records w @ [r]
                 \<and> List.find (\<lambda>r. rec_id r = rid) (records w @ [r]) = Some r
                 \<and> processing_status r = ''failed''
                 \<and> error_message r = Some (str_exn x)
                 \<and> retry_count r = 1"
    using c(2) recs id0 idr by (intro exI [of _ r0] exI [of _ r]) simp
qed

lemma not_found_fails:
  "fst (process_message default_config not_found_env empty_world second_event)
     = Inl (Exception ''Failed to download file from S3'')"
proof -
  have d: "fst (download_file default_config not_found_env w (bucket second_event)
               (key second_event) None) = None" for w
    by (simp add: download_file_def destination_def second_event_def variant_fields
          split: option.splits)
  have "fst (process_steps default_config not_found_env w second_event rid)
               = Inl (Exception ''Failed to download file from S3'')" for w rid
  proof -
    obtain w1 where "download_file default_config not_found_env w (bucket second_event)
               (key second_event) None = (None, w1)"
      using d [of w] by (metis prod.collapse)
    then show ?thesis
      by (simp add: process_steps_def)
  qed
  then show ?thesis
    by (simp add: process_message_def split: prod.splits sum.splits)
       (metis fst_conv sum.distinct(1) sum.inject(1))
qed

lemma list_key_fails:
  "fst (process_message default_config sample_env empty_world list_key_event)
     = Inl (Exception ''Failed to download file from S3'')"
  "fst (create_processing_record sample_env empty_world (bucket list_key_event)
          (key list_key_event) None) = None"
  by (simp_all add: process_message_def create_processing_record_def storable_def
        process_steps_def download_file_def destination_def list_key_event_def)

theorem failed_event_marked_and_acknowledged_witness:
  "fst (process_message default_config not_found_env empty_world second_event)
     = Inl (Exception ''Failed to download file from S3'')
   \<and> db_up not_found_env
   \<and> fst (create_processing_record not_found_env empty_world (bucket second_event)
            (key second_event) None) = Some 1
   \<and> sqs_deleted (handle_message default_config not_found_env empty_world second_event)
       = [''rh1'']
   \<and> (\<exists>r. records (handle_message default_config not_found_env empty_world second_event) = [r]
          \<and> rec_id r = 1
          \<and> processing_status r = ''failed''
          \<and> error_message r = Some ''Failed to download file from S3''
          \<and> retry_count r = 1)
   \<and> fst (process_message default_config sample_env empty_world list_key_event)
       = Inl (Exception ''Failed to download file from S3'')
   \<and> fst (create_processing_record sample_env empty_world (bucket list_key_event)
            (key list_key_event) None) = None
   \<and> sqs_deleted (handle_message default_config sample_env empty_world list_key_event)
       = [''rh3'']
   \<and> records (handle_message default_config sample_env empty_world list_key_event) = []"
proof -
  have up: "db_up not_found_env"
    by (simp add: not_found_env_def sample_env_def)
  have d: "sqs_deleted empty_world = []" "receipt_handle second_event = ''rh1''"
      "records empty_world = []" "receipt_handle list_key_event = ''rh3''"
      "bucket second_event = JStr ''dancer-uploads''"
      "key second_event = JStr ''uploads/u1/s1/b.mp4''"
    by (simp_all add: empty_world_def second_event_def list_key_event_def)
  have n: "next_id [] = 1"
    by (simp add: next_id_def)
  have cr: "fst (create_processing_record not_found_env empty_world (bucket second_event)
                  (key second_event) None) = Some 1"
    using not_found_fails up d n
      failed_event_marked_and_acknowledged [where cfg = default_config and e = not_found_env
        and w = empty_world and message = second_event
        and x = "Exception ''Failed to download file from S3''"
        and b = "''dancer-uploads''" and k = "''uploads/u1/s1/b.mp4''"]
    by simp
  have a: "sqs_deleted (handle_message default_config not_found_env empty_world second_event)
             = [''rh1'']
           \<and> (\<exists>r. records (handle_message default_config not_found_env empty_world second_event)
                     = [r]
                  \<and> rec_id r = 1
                  \<and> processing_status r = ''failed''
                  \<and> error_message r = Some ''Failed to download file from S3''
                  \<and> retry_count r = 1)"
    using not_found_fails cr d
      failed_event_marked_and_acknowledged [where cfg = default_config and e = not_found_env
        and w = empty_world and message = second_event
        and x = "Exception ''Failed to download file from S3''" and rid = 1]
    by auto
  have b: "sqs_deleted (handle_message default_config sample_env empty_world list_key_event)
             = [''rh3'']
           \<and> records (handle_message default_config sample_env empty_world list_key_event) = []"
    using list_key_fails d
      failed_event_marked_and_acknowledged [where cfg = default_config and e = sample_env
        and w = empty_world and message = list_key_event
        and x = "Exception ''Failed to download file from S3''"]
    by simp
  show ?thesis
    using not_found_fails up cr a b list_key_fails by simp
qed

lemma process_message_ok:
  assumes "fst (download_file cfg e w (bucket m) (key m) None) = Some p"
    and "get_file_metadata e (bucket m) (key m) = None"
  shows "\<exists>md real.
           fst (process_message cfg e w m) = Inr ()
           \<and> records (snd (process_message cfg e w m)) =
               records (update_if_tracked e
                          (snd (create_processing_record e w (bucket m) (key m) None))
                          (fst (create_processing_record e w (bucket m) (key m) None))
                          ''completed'' (Some md) None)
           \<and> truthy md
           \<and> py_getitem md ''real_metadata'' = Inr real
           \<and> py_getitem real ''s3_info'' = Inr (JObj [])
           \<and> sqs_deleted (snd (process_message cfg e w m)) = sqs_deleted w @ [receipt_handle m]
           \<and> messages_processed (snd (process_message cfg e w m)) = messages_processed w
           \<and> processing_errors (snd (process_message cfg e w m)) = processing_errors w"
proof -
  obtain rid w0 where c: "create_processing_record e w (bucket m) (key m) None = (rid, w0)"
    by (cases "create_processing_record e w (bucket m) (key m) None")
  then have w0: "sqs_deleted w0 = sqs_deleted w" "processing_errors w0 = processing_errors w"
      "messages_processed w0 = messages_processed w" "files w0 = files w"
    using create_processing_record_fields [of e w "bucket m" "key m" None] by simp_all
  have "\<exists>R. w0 = w\<lparr>records := R\<rparr>"
    using c by (auto simp: create_processing_record_def Let_def split: if_splits
        intro: exI [of _ "records w"])
  then have d: "fst (download_file cfg e w0 (bucket m) (key m) None) = Some p"
    using assms(1) download_file_records_cong by metis
  obtain md real w1 where s: "process_steps cfg e w0 m rid = (Inr (), w1)"
      "records w1 = records (update_if_tracked e w0 rid ''completed'' (Some md) None)"
      "truthy md" "py_getitem md ''real_metadata'' = Inr real"
      "py_getitem real ''s3_info'' = Inr (JObj [])"
      "sqs_deleted w1 = sqs_deleted w0 @ [receipt_handle m]"
      "messages_processed w1 = messages_processed w0"
      "processing_errors w1 = processing_errors w0"
    using process_steps_ok [OF d assms(2), of rid] by blast
  have pm: "process_message cfg e w m = (Inr (), w1)"
    using c s(1) by (simp add: process_message_def)
  show ?thesis
    using pm s(2-8) w0 c by (intro exI [of _ md] exI [of _ real]) simp
qed

text \<open>
  C10: when the download succeeds and the metadata lookup of the source object returns
  nothing, the event is still handled to the end: \<^verbatim>\<open>process_message\<close> raises nothing,
  the message is deleted from the queue, and the cycle counts it as processed, not as
  an error. With the record store in service the record of the attempt ends
  \<^verbatim>\<open>completed\<close>, with no error message and \<open>retry_count = 0\<close>, and the metadata stored
  has the empty dictionary as its source-object attributes; with the store out of
  service no record changes.
\<close>

theorem metadata_lookup_failure_tolerated:
  "fst (download_file cfg e w (bucket message) (key message) None) = Some p
   \<and> get_file_metadata e (bucket message) (key message) = None \<longrightarrow>
     fst (process_message cfg e w message) = Inr ()
     \<and> sqs_deleted (snd (process_message cfg e w message))
         = sqs_deleted w @ [receipt_handle message]
     \<and> processing_errors (handle_message cfg e w message) = processing_errors w
     \<and> messages_processed (handle_message cfg e w message) = messages_processed w + 1
     \<and> (\<not> db_up e \<longrightarrow> records (snd (process_message cfg e w message)) = records w)
     \<and> (db_up e \<longrightarrow>
          (\<exists>r md real.
             records (snd (process_message cfg e w message)) = records w @ [r]
             \<and> fst (create_processing_record e w (bucket message) (key message) None)
                 = Some (rec_id r)
             \<and> List.find (\<lambda>x. rec_id x = rec_id r)
                  (records (snd (process_message cfg e w message))) = Some r
             \<and> processing_status r = ''completed''
             \<and> error_message r = None \<and> retry_count r = 0
             \<and> metadata_json r = Some md
             \<and> py_getitem md ''real_metadata'' = Inr real
             \<and> py_getitem real ''s3_info'' = Inr (JObj [])))"
proof (intro impI)
  assume h: "fst (download_file cfg e w (bucket message) (key message) None) = Some p
   \<and> get_file_metadata e (bucket message) (key message) = None"
  then obtain md real where ok: "fst (process_message cfg e w message) = Inr ()"
      "records (snd (process_message cfg e w message)) =
               records (update_if_tracked e
                          (snd (create_processing_record e w (bucket message) (key message) None))
                          (fst (create_processing_record e w (bucket message) (key message) None))
                          ''completed'' (Some md) None)"
      "truthy md" "py_getitem md ''real_metadata'' = Inr real"
      "py_getitem real ''s3_info'' = Inr (JObj [])"
      "sqs_deleted (snd (process_message cfg e w message)) = sqs_deleted w @ [receipt_handle message]"
      "messages_processed (snd (process_message cfg e w message)) = messages_processed w"
      "processing_errors (snd (process_message cfg e w message)) = processing_errors w"
    using process_message_ok [of cfg e w message p] by blast
  obtain w1 where pm: "process_message cfg e w message = (Inr (), w1)"
    using ok(1) by (cases "process_message cfg e w message") simp
  then have w1: "snd (process_message cfg e w message) = w1" by simp
  have hm: "handle_message cfg e w message = w1\<lparr>messages_processed := messages_processed w1 + 1\<rparr>"
    using pm by (simp add: handle_message_def)
  have down: "records (snd (process_message cfg e w message)) = records w" if "\<not> db_up e"
    using that ok(2) by (simp add: create_processing_record_down update_if_tracked_def)
  have str: "\<exists>b k. bucket message = JStr b \<and> key message = JStr k"
    using h download_file_Some(3) by blast
  have up: "\<exists>r md real.
             records (snd (process_message cfg e w message)) = records w @ [r]
             \<and> fst (create_processing_record e w (bucket message) (key message) None)
                 = Some (rec_id r)
             \<and> List.find (\<lambda>x. rec_id x = rec_id r)
                  (records (snd (process_message cfg e w message))) = Some r
             \<and> processing_status r = ''completed''
             \<and> error_message r = None \<and> retry_count r = 0
             \<and> metadata_json r = Some md
             \<and> py_getitem md ''real_metadata'' = Inr real
             \<and> py_getitem real ''s3_info'' = Inr (JObj [])" if db: "db_up e"
  proof -
    define rid where "rid = next_id (records w)"
    define r0 where "r0 =
       \<lparr>rec_id = rid, upload_id = extract_upload_id_from_key (key message),
        s3_bucket = bucket message, s3_key = key message,
        processing_status = ''processing'', processing_started = Some (utcnow e),
        processing_completed = None, metadata_json = None, error_message = None,
        retry_count = 0\<rparr>"
    have c: "fst (create_processing_record e w (bucket message) (key message) None) = Some rid"
        "records (snd (create_processing_record e w (bucket message) (key message) None))
           = records w @ [r0]"
      using create_processing_record_up [OF db, of "bucket message" "key message" w] str
      by (auto simp: rid_def r0_def)
    have fresh: "\<forall>r \<in> set (records w). \<not> rec_id r = rid"
      using next_id_fresh by (auto simp: rid_def)
    have id0: "rec_id r0 = rid" by (simp add: r0_def)
    have pos: "rid \<noteq> 0" by (simp add: rid_def next_id_pos)
    define r where "r = apply_status e ''completed'' (Some md) None r0"
    have "records (snd (process_message cfg e w message)) =
            update_first (\<lambda>r. rec_id r = rid) (apply_status e ''completed'' (Some md) None)
              (records w @ [r0])"
      using ok(2) c db pos by (simp add: update_if_tracked_records)
    also have "\<dots> = records w @ [r]"
      using fresh id0 by (simp add: update_first_last r_def)
    finally have recs: "records (snd (process_message cfg e w message)) = records w @ [r]" .
    have idr: "rec_id r = rid" by (simp add: r_def r0_def apply_status_def Let_def)
    have f: "List.find (\<lambda>x. rec_id x = rid) (records w @ [r]) = Some r"
      using fresh idr by (simp add: find_last)
    have st: "processing_status r = ''completed''" "error_message r = None" "retry_count r = 0"
        "metadata_json r = Some md"
      using ok(3) by (simp_all add: r_def r0_def apply_status_def Let_def)
    show ?thesis
      using recs c(1) idr f st ok(4,5)
      by (intro exI [of _ r] exI [of _ md] exI [of _ real]) simp
  qed
  show "fst (process_message cfg e w message) = Inr ()
     \<and> sqs_deleted (snd (process_message cfg e w message))
         = sqs_deleted w @ [receipt_handle message]
     \<and> processing_errors (handle_message cfg e w message) = processing_errors w
     \<and> messages_processed (handle_message cfg e w message) = messages_processed w + 1
     \<and> (\<not> db_up e \<longrightarrow> records (snd (process_message cfg e w message)) = records w)
     \<and> (db_up e \<longrightarrow>
          (\<exists>r md real.
             records (snd (process_message cfg e w message)) = records w @ [r]
             \<and> fst (create_processing_record e w (bucket message) (key message) None)
                 = Some (rec_id r)
             \<and> List.find (\<lambda>x. rec_id x = rec_id r)
                  (records (snd (process_message cfg e w message))) = Some r
             \<and> processing_status r = ''completed''
             \<and> error_message r = None \<and> retry_count r = 0
             \<and> metadata_json r = Some md
             \<and> py_getitem md ''real_metadata'' = Inr real
             \<and> py_getitem real ''s3_info'' = Inr (JObj [])))"
    using ok(1,6,7,8) hm w1 down up by simp
qed

lemma denied_download:
  "fst (download_file default_config denied_head_env empty_world (bucket second_event)
          (key second_event) None) = Some ''./temp_downloads/b.mp4''"
  by (simp add: download_file_def destination_def sample_download_paths second_event_def
        sample_makedirs_variants transfer_file_def verify_download_def path_exists_def
        variant_fields sample_resolve downloads_dir_files)

lemma denied_metadata:
  "get_file_metadata denied_head_env (bucket second_event) (key second_event) = None"
  by (simp add: get_file_metadata_def second_event_def denied_head_env_def sample_env_def)

theorem metadata_lookup_failure_tolerated_witness:
  "fst (download_file default_config denied_head_env empty_world (bucket second_event)
          (key second_event) None) = Some ''./temp_downloads/b.mp4''
   \<and> get_file_metadata denied_head_env (bucket second_event) (key second_event) = None
   \<and> db_up denied_head_env
   \<and> fst (process_message default_config denied_head_env empty_world second_event) = Inr ()
   \<and> sqs_deleted (snd (process_message default_config denied_head_env empty_world second_event))
       = [''rh1'']
   \<and> processing_errors (handle_message default_config denied_head_env empty_world second_event) = 0
   \<and> messages_processed (handle_message default_config denied_head_env empty_world second_event) = 1
   \<and> (\<exists>r md real.
         records (snd (process_message default_config denied_head_env empty_world second_event))
           = [r]
         \<and> processing_status r = ''completed''
         \<and> error_message r = None \<and> retry_count r = 0
         \<and> metadata_json r = Some md
         \<and> py_getitem md ''real_metadata'' = Inr real
         \<and> py_getitem real ''s3_info'' = Inr (JObj []))"
proof -
  have up: "db_up denied_head_env"
    by (simp add: denied_head_env_def sample_env_def)
  have d: "sqs_deleted empty_world = []" "receipt_handle second_event = ''rh1''"
      "records empty_world = []" "processing_errors empty_world = 0"
      "messages_processed empty_world = 0"
    by (simp_all add: empty_world_def second_event_def)
  have "\<exists>r md real.
         records (snd (process_message default_config denied_head_env empty_world second_event))
           = [r]
         \<and> processing_status r = ''completed''
         \<and> error_message r = None \<and> retry_count r = 0
         \<and> metadata_json r = Some md
         \<and> py_getitem md ''real_metadata'' = Inr real
         \<and> py_getitem real ''s3_info'' = Inr (JObj [])"
    using denied_download denied_metadata up d(3)
      metadata_lookup_failure_tolerated [where cfg = default_config and e = denied_head_env
        and w = empty_world and message = second_event and p = "''./temp_downloads/b.mp4''"]
    by auto
  then show ?thesis
    using denied_download denied_metadata up d
      metadata_lookup_failure_tolerated [where cfg = default_config and e = denied_head_env
        and w = empty_world and message = second_event and p = "''./temp_downloads/b.mp4''"]
    by simp
qed

section \<open>The main loop\<close>

lemma process_message_loop_fields:
  "polls (snd (process_message cfg e w m)) = polls w
   \<and> running (snd (process_message cfg e w m)) = running w"
proof -
  obtain rid w0 where c: "create_processing_record e w (bucket m) (key m) None = (rid, w0)"
    by (cases "create_processing_record e w (bucket m) (key m) None")
  then have w0: "polls w0 = polls w" "running w0 = running w"
    using create_processing_record_fields [of e w "bucket m" "key m" None] by simp_all
  obtain res w1 where s: "process_steps cfg e w0 m rid = (res, w1)"
    by (cases "process_steps cfg e w0 m rid")
  have w1: "polls w1 = polls w0 \<and> running w1 = running w0"
  proof (cases res)
    case (Inl x)
    with s show ?thesis using process_steps_Inl [of cfg e w0 m rid x w1] by simp
  next
    case (Inr u)
    obtain r w' where d: "download_file cfg e w0 (bucket m) (key m) None = (r, w')"
      and fr: "polls w' = polls w0" "running w' = running w0"
      by (rule download_file_result)
    from s Inr d fr show ?thesis
      by (auto simp: process_steps_def Let_def split: option.splits if_splits sum.splits)
  qed
  show ?thesis
    using c s w0 w1 by (cases res) (simp_all add: process_message_def)
qed

lemma handle_message_loop_fields [simp]:
  "polls (handle_message cfg e w m) = polls w"
  "running (handle_message cfg e w m) = running w"
  using process_message_loop_fields [of cfg e w m]
  by (auto simp: handle_message_def Let_def split: prod.splits sum.splits)

lemma fold_handle_loop_fields [simp]:
  "polls (fold (\<lambda>message w'. handle_message cfg e w' message) ms w) = polls w"
  "running (fold (\<lambda>message w'. handle_message cfg e w' message) ms w) = running w"
  by (induction ms arbitrary: w) simp_all

lemma process_cycle_loop_fields [simp]:
  "polls (process_cycle cfg e w) = polls w + 1"
  "running (process_cycle cfg e w) = running w"
  by (simp_all add: process_cycle_def Let_def split: prod.splits)

lemma limit_reached_iff:
  "0 < MAX_RUNTIME_HOURS cfg \<Longrightarrow>
     limit_reached cfg e n \<longleftrightarrow> MAX_RUNTIME_HOURS cfg * 3600 \<le> elapsed_seconds e n"
  by (simp add: limit_reached_def max_runtime_seconds_def)

lemma main_loop_exit_now:
  "limit_reached cfg e n \<Longrightarrow> main_loop fuel cfg e n w = Some w"
  by (cases fuel) simp_all

lemma main_loop_exits:
  "running w \<Longrightarrow> n \<le> j \<Longrightarrow> j \<le> n + fuel \<Longrightarrow> limit_reached cfg e j \<Longrightarrow>
     \<exists>w'. main_loop fuel cfg e n w = Some w' \<and> polls w' \<le> polls w + (j - n)"
proof (induction fuel arbitrary: n w)
  case 0
  then have "j = n" by simp
  with 0 show ?case by simp
next
  case (Suc fuel)
  show ?case
  proof (cases "limit_reached cfg e n")
    case True
    then show ?thesis by simp
  next
    case False
    with Suc.prems have "Suc n \<le> j" by (cases "j = n") auto
    moreover have "j \<le> Suc n + fuel" using Suc.prems by simp
    moreover have "running (process_cycle cfg e w)" using Suc.prems by simp
    ultimately obtain w' where w': "main_loop fuel cfg e (Suc n) (process_cycle cfg e w) = Some w'"
        "polls w' \<le> polls (process_cycle cfg e w) + (j - Suc n)"
      using Suc.IH [of "process_cycle cfg e w" "Suc n"] Suc.prems(4) by blast
    from w'(2) \<open>Suc n \<le> j\<close> have "polls w' \<le> polls w + (j - n)" by simp
    with w'(1) False Suc.prems(1) show ?thesis by simp
  qed
qed

lemma main_loop_polls:
  "main_loop fuel cfg e n w = Some w' \<Longrightarrow> running w \<Longrightarrow>
     polls w \<le> polls w' \<and> (\<forall>i < polls w' - polls w. \<not> limit_reached cfg e (n + i))"
proof (induction fuel arbitrary: n w)
  case 0
  then show ?case by (simp split: if_splits)
next
  case (Suc fuel)
  show ?case
  proof (cases "limit_reached cfg e n")
    case True
    with Suc.prems show ?thesis by simp
  next
    case False
    with Suc.prems have m: "main_loop fuel cfg e (Suc n) (process_cycle cfg e w) = Some w'"
      by simp
    have r: "running (process_cycle cfg e w)" using Suc.prems by simp
    from Suc.IH [OF m r] have ih: "polls w + 1 \<le> polls w'"
        "\<forall>i < polls w' - (polls w + 1). \<not> limit_reached cfg e (Suc n + i)"
      by simp_all
    have "\<not> limit_reached cfg e (n + i)" if "i < polls w' - polls w" for i
    proof (cases i)
      case 0
      with False show ?thesis by simp
    next
      case (Suc k)
      with that have "k < polls w' - (polls w + 1)" by simp
      with ih(2) Suc show ?thesis by simp
    qed
    with ih(1) show ?thesis by simp
  qed
qed

text \<open>
  C8: with a maximum runtime above zero configured and the service running, every pass
  of the main loop reads the elapsed time before it polls. A pass that reads an elapsed
  time at or above the budget leaves the loop at once, the world unchanged: no poll is
  started. A pass that reads less runs one whole cycle (one poll, every event of the
  batch handled to its end) and only then comes the next check. So the loop is left at
  the first pass that reads the budget reached, having polled at most once per earlier
  pass, and every poll the loop made was in a pass that read an elapsed time below the
  budget.
\<close>

theorem runtime_budget_stops_polling:
  "0 < MAX_RUNTIME_HOURS cfg \<and> running w \<longrightarrow>
     (MAX_RUNTIME_HOURS cfg * 3600 \<le> elapsed_seconds e n
        \<longrightarrow> main_loop fuel cfg e n w = Some w)
     \<and> (elapsed_seconds e n < MAX_RUNTIME_HOURS cfg * 3600
        \<longrightarrow> main_loop (Suc fuel) cfg e n w
              = main_loop fuel cfg e (Suc n) (process_cycle cfg e w)
            \<and> polls (process_cycle cfg e w) = polls w + 1)
     \<and> (n \<le> j \<and> j \<le> n + fuel \<and> MAX_RUNTIME_HOURS cfg * 3600 \<le> elapsed_seconds e j
        \<longrightarrow> (\<exists>w'. main_loop fuel cfg e n w = Some w' \<and> polls w' \<le> polls w + (j - n)))
     \<and> (main_loop fuel cfg e n w = Some w'
        \<longrightarrow> polls w \<le> polls w'
            \<and> (\<forall>i < polls w' - polls w.
                  elapsed_seconds e (n + i) < MAX_RUNTIME_HOURS cfg * 3600))"
proof (intro impI conjI; (elim conjE)?)
  assume h: "0 < MAX_RUNTIME_HOURS cfg" and r: "running w"
  {
    assume "MAX_RUNTIME_HOURS cfg * 3600 \<le> elapsed_seconds e n"
    then show "main_loop fuel cfg e n w = Some w"
      using h by (simp add: main_loop_exit_now limit_reached_iff)
  }
  {
    assume "elapsed_seconds e n < MAX_RUNTIME_HOURS cfg * 3600"
    then show "main_loop (Suc fuel) cfg e n w
              = main_loop fuel cfg e (Suc n) (process_cycle cfg e w)"
      using h r by (simp add: limit_reached_iff)
  }
  {
    show "polls (process_cycle cfg e w) = polls w + 1" by simp
  }
  {
    assume "n \<le> j" "j \<le> n + fuel" "MAX_RUNTIME_HOURS cfg * 3600 \<le> elapsed_seconds e j"
    then show "\<exists>w'. main_loop fuel cfg e n w = Some w' \<and> polls w' \<le> polls w + (j - n)"
      using h r main_loop_exits [of w n j fuel cfg e] by (simp add: limit_reached_iff)
  }
  {
    assume m: "main_loop fuel cfg e n w = Some w'"
    show "polls w \<le> polls w'"
      using main_loop_polls [OF m r] by simp
    show "\<forall>i < polls w' - polls w. elapsed_seconds e (n + i) < MAX_RUNTIME_HOURS cfg * 3600"
      using main_loop_polls [OF m r] h by (simp add: limit_reached_iff not_le)
  }
qed

theorem runtime_budget_stops_polling_witness:
  "0 < MAX_RUNTIME_HOURS default_config
   \<and> running empty_world
   \<and> MAX_RUNTIME_HOURS default_config * 3600 \<le> elapsed_seconds sample_env 4
   \<and> main_loop 10 default_config sample_env 4 empty_world = Some empty_world
   \<and> elapsed_seconds sample_env 3 < MAX_RUNTIME_HOURS default_config * 3600
   \<and> main_loop 1 default_config sample_env 3 empty_world
       = Some (process_cycle default_config sample_env empty_world)
   \<and> polls (process_cycle default_config sample_env empty_world) = polls empty_world + 1
   \<and> (\<exists>w'. main_loop 10 default_config sample_env 0 empty_world = Some w'
           \<and> polls w' \<le> polls empty_world + 4)
   \<and> polls empty_world \<le> polls (process_cycle default_config sample_env empty_world)"
proof -
  have a: "0 < MAX_RUNTIME_HOURS default_config" "running empty_world"
    by (simp_all add: default_config_def empty_world_def)
  have b: "MAX_RUNTIME_HOURS default_config * 3600 \<le> elapsed_seconds sample_env 4"
      "elapsed_seconds sample_env 3 < MAX_RUNTIME_HOURS default_config * 3600"
    by (simp_all add: default_config_def sample_env_def)
  have c: "main_loop 10 default_config sample_env 4 empty_world = Some empty_world"
    using a b(1)
      runtime_budget_stops_polling [where cfg = default_config and w = empty_world
        and e = sample_env and n = 4 and fuel = 10]
    by simp
  have d: "main_loop 0 default_config sample_env 4
             (process_cycle default_config sample_env empty_world)
           = Some (process_cycle default_config sample_env empty_world)"
    using a b(1) by (simp add: limit_reached_iff)
  have e: "main_loop 1 default_config sample_env 3 empty_world
             = Some (process_cycle default_config sample_env empty_world)"
    using a b(2) d
      runtime_budget_stops_polling [where cfg = default_config and w = empty_world
        and e = sample_env and n = 3 and fuel = 0]
    by simp
  have f: "\<exists>w'. main_loop 10 default_config sample_env 0 empty_world = Some w'
           \<and> polls w' \<le> polls empty_world + 4"
    using a b(1)
      runtime_budget_stops_polling [where cfg = default_config and w = empty_world
        and e = sample_env and n = 0 and j = 4 and fuel = 10]
    by simp
  have g: "polls (process_cycle default_config sample_env empty_world) = polls empty_world + 1"
    by simp
  have h: "polls empty_world \<le> polls (process_cycle default_config sample_env empty_world)"
    using a e
      runtime_budget_stops_polling [where cfg = default_config and w = empty_world
        and e = sample_env and n = 3 and fuel = 1
        and w' = "process_cycle default_config sample_env empty_world"]
    by simp
  show ?thesis
    using a b c e f g h by simp
qed

end
